theory Spec2Isabelle
  imports Complex_Main
begin

section \<open>Data model of Calculator.py\<close>

text \<open>
  Amounts and rates are Python floats in the source; they are embedded as exact reals.
  The amounts the distribution optimizer enumerates come from \<^verbatim>\<open>range(0, stop, 5000)\<close>
  and are Python ints, embedded as \<open>int\<close>.

  A tier row is the dict built by \<^verbatim>\<open>process_interest_rates\<close>. The numeric columns are
  embedded already parsed: \<open>interest_rate\<close> is the percentage figure, that is the value of
  \<^verbatim>\<open>float(str(tier['interest_rate']).strip('%'))\<close>, and the calculator divides it by 100.
\<close>

datatype py_error = StopIteration | KeyError

record tier =
  tier_type :: string
  balance_tier :: string
  interest_rate :: real
  requirement_type :: string
  min_spend :: real
  min_salary :: real
  cap_amount :: real
  remarks :: string

record bank_info =
  bank :: string
  tiers :: "tier list"

record requirements =
  has_salary :: bool
  salary_amount :: real
  spend_amount :: real
  giro_count :: int
  has_insurance :: bool
  insurance_amount :: real
  has_investments :: bool
  investment_amount :: real
  has_home_loan :: bool
  home_loan_amount :: real
  increased_balance :: bool
  grew_wealth :: bool

text \<open>
  The description of a breakdown entry is an f-string. Its pieces are kept in order: the
  literal text, and the numbers and table strings spliced into it. How Python renders a
  number (\<^verbatim>\<open>{x:,.0f}\<close>) and the final \<^verbatim>\<open>strip()\<close> are presentation only.
\<close>

datatype piece = Lit string | Num real | Cnt int

record tier_application =
  amount_in_tier :: real
  tier_rate :: real
  tier_interest :: real
  monthly_interest :: real
  description :: "piece list"

record calculation_result =
  total_interest :: real
  breakdown :: "tier_application list"

section \<open>Errors as values\<close>

definition bind_err :: "py_error + 'a \<Rightarrow> ('a \<Rightarrow> py_error + 'b) \<Rightarrow> py_error + 'b" where
  "bind_err m f = (case m of Inl e \<Rightarrow> Inl e | Inr x \<Rightarrow> f x)"

text \<open>\<^verbatim>\<open>next(t for t in tiers if p(t))\<close>: the first match, or StopIteration.\<close>

definition next_tier :: "(tier \<Rightarrow> bool) \<Rightarrow> tier list \<Rightarrow> py_error + tier" where
  "next_tier p ts = (case find p ts of None \<Rightarrow> Inl StopIteration | Some t \<Rightarrow> Inr t)"

text \<open>\<^verbatim>\<open>float(str(tier['interest_rate']).strip('%')) / 100\<close>\<close>

definition rate_of :: "tier \<Rightarrow> real" where
  "rate_of t = interest_rate t / 100"

section \<open>calculate\_bank\_interest\<close>

text \<open>
  The closure \<^verbatim>\<open>add_tier\<close> appends one entry to the enclosing \<^verbatim>\<open>breakdown\<close> and returns
  the interest; the list is passed in and returned.
\<close>

definition add_tier ::
  "tier_application list \<Rightarrow> real \<Rightarrow> real \<Rightarrow> piece list \<Rightarrow> real \<times> tier_application list" where
  "add_tier bd amount rate descr =
     (let interest = amount * rate in
      (interest,
       bd @ [\<lparr>amount_in_tier = amount, tier_rate = rate, tier_interest = interest,
              monthly_interest = interest / 12, description = descr\<rparr>]))"

text \<open>The accumulator pair is (\<^verbatim>\<open>total_interest\<close>, \<^verbatim>\<open>breakdown\<close>).\<close>

type_synonym acc = "real \<times> tier_application list"

text \<open>\<^verbatim>\<open>total_interest += add_tier(amount, rate, description)\<close>\<close>

definition add_to_total :: "acc \<Rightarrow> real \<Rightarrow> real \<Rightarrow> piece list \<Rightarrow> acc" where
  "add_to_total a amount rate descr =
     (case add_tier (snd a) amount rate descr of (interest, bd) \<Rightarrow> (fst a + interest, bd))"

text \<open>
  \<^verbatim>\<open>interest = amount * rate; total_interest += interest; add_tier(amount, rate, ...)\<close>,
  the form the UOB One and BOC SmartSaver branches use.
\<close>

definition add_interest_then_tier :: "acc \<Rightarrow> real \<Rightarrow> real \<Rightarrow> piece list \<Rightarrow> acc" where
  "add_interest_then_tier a amount rate descr =
     (let interest = amount * rate in
      (fst a + interest, snd (add_tier (snd a) amount rate descr)))"

definition result_of :: "acc \<Rightarrow> calculation_result" where
  "result_of a = \<lparr>total_interest = fst a, breakdown = snd a\<rparr>"

subsection \<open>SC BonusSaver\<close>

definition sc_invest_bonus :: "bank_info \<Rightarrow> requirements \<Rightarrow> real \<Rightarrow> acc \<Rightarrow> py_error + acc" where
  "sc_invest_bonus bank_info bank_requirements eligible_amount a =
     (if has_investments bank_requirements then
        bind_err (next_tier (\<lambda>t. tier_type t = ''invest'') (tiers bank_info)) (\<lambda>invest_tier.
          Inr (add_to_total a eligible_amount (rate_of invest_tier)
                 [Lit ''Investment Bonus (6 months)'']))
      else Inr a)"

definition sc_insure_bonus :: "bank_info \<Rightarrow> requirements \<Rightarrow> real \<Rightarrow> acc \<Rightarrow> py_error + acc" where
  "sc_insure_bonus bank_info bank_requirements eligible_amount a =
     (if has_insurance bank_requirements then
        bind_err (next_tier (\<lambda>t. tier_type t = ''insure'') (tiers bank_info)) (\<lambda>insure_tier.
          Inr (add_to_total a eligible_amount (rate_of insure_tier)
                 [Lit ''Insurance Bonus (6 months)'']))
      else Inr a)"

definition calc_sc_bonussaver :: "real \<Rightarrow> bank_info \<Rightarrow> requirements \<Rightarrow> py_error + acc" where
  "calc_sc_bonussaver deposit_amount bank_info bank_requirements =
     bind_err (next_tier (\<lambda>t. tier_type t = ''salary'') (tiers bank_info)) (\<lambda>salary_tier.
     bind_err (next_tier (\<lambda>t. tier_type t = ''spend'') (tiers bank_info)) (\<lambda>spend_tier.
     bind_err (next_tier (\<lambda>t. tier_type t = ''base'') (tiers bank_info)) (\<lambda>base_tier.
       let min_salary = min_salary salary_tier;
           min_spend = min_spend spend_tier;
           a0 = add_to_total (0, []) deposit_amount (rate_of base_tier) [Lit ''Base Interest''];
           eligible_amount = min deposit_amount 100000;
           a1 = (if has_salary bank_requirements \<and> salary_amount bank_requirements \<ge> min_salary
                 then add_to_total a0 eligible_amount (rate_of salary_tier)
                        [Lit ''Salary Credit Bonus (>= $'', Num min_salary, Lit '')'']
                 else a0);
           a2 = (if spend_amount bank_requirements \<ge> min_spend
                 then add_to_total a1 eligible_amount (rate_of spend_tier)
                        [Lit ''Card Spend Bonus (>= $'', Num min_spend, Lit '')'']
                 else a1)
       in bind_err (sc_invest_bonus bank_info bank_requirements eligible_amount a2)
            (sc_insure_bonus bank_info bank_requirements eligible_amount))))"

subsection \<open>UOB One\<close>

text \<open>
  The three ladders run the same loop over their tiers, with a different label; the loop
  leaves at the first tier that would take nothing.
\<close>

fun uob_ladder :: "string \<Rightarrow> tier list \<Rightarrow> real \<Rightarrow> acc \<Rightarrow> acc" where
  "uob_ladder lbl [] remaining_amount a = a"
| "uob_ladder lbl (t # ts) remaining_amount a =
     (let amount_in_tier = min remaining_amount (cap_amount t) in
      if amount_in_tier \<le> 0 then a
      else uob_ladder lbl ts (remaining_amount - amount_in_tier)
             (add_interest_then_tier a amount_in_tier (rate_of t)
                [Lit lbl, Lit '' ('', Lit (balance_tier t), Lit '')'']))"

definition calc_uob_one :: "real \<Rightarrow> bank_info \<Rightarrow> requirements \<Rightarrow> py_error + acc" where
  "calc_uob_one deposit_amount bank_info bank_requirements =
     (let has_spend = (spend_amount bank_requirements \<ge> 500);
          has_salary = has_salary bank_requirements;
          has_giro = (giro_count bank_requirements \<ge> 3)
      in if has_spend then
           (if has_salary then
              Inr (uob_ladder ''Salary + Spend''
                     (filter (\<lambda>t. requirement_type t = ''salary'') (tiers bank_info))
                     deposit_amount (0, []))
            else if has_giro then
              Inr (uob_ladder ''GIRO + Spend''
                     (filter (\<lambda>t. requirement_type t = ''giro'') (tiers bank_info))
                     deposit_amount (0, []))
            else
              Inr (uob_ladder ''Spend Only''
                     (filter (\<lambda>t. requirement_type t = ''spend_only'') (tiers bank_info))
                     deposit_amount (0, [])))
         else
           bind_err (next_tier (\<lambda>t. tier_type t = ''base'') (tiers bank_info)) (\<lambda>base_tier.
             let base_rate = rate_of base_tier;
                 base_amount = min deposit_amount (cap_amount base_tier)
             in Inr (add_interest_then_tier (0, []) base_amount base_rate
                       [Lit ''Base Interest ('', Lit (balance_tier base_tier), Lit '')''])))"

subsection \<open>OCBC 360\<close>

text \<open>
  \<^verbatim>\<open>process_ocbc_tier\<close> updates the enclosing \<^verbatim>\<open>total_first_75k\<close>, \<^verbatim>\<open>total_next_25k\<close>
  and, through \<^verbatim>\<open>add_tier\<close>, \<^verbatim>\<open>breakdown\<close>; the three are the state
  (breakdown, total\_first\_75k, total\_next\_25k). The two lookups have a default of None,
  so they do not raise.
\<close>

type_synonym ocbc_state = "tier_application list \<times> real \<times> real"

definition process_ocbc_tier ::
  "bank_info \<Rightarrow> real \<Rightarrow> real \<Rightarrow> string \<Rightarrow> bool \<Rightarrow> ocbc_state \<Rightarrow> ocbc_state" where
  "process_ocbc_tier bank_info first_75k next_25k ttype requirement_met s =
     (if requirement_met then
        (let tier_75k = find (\<lambda>t. tier_type t = ttype \<and> cap_amount t = 75000) (tiers bank_info);
             tier_25k = find (\<lambda>t. tier_type t = ttype \<and> cap_amount t = 25000) (tiers bank_info);
             s1 = (case tier_75k of
                     None \<Rightarrow> s
                   | Some t \<Rightarrow>
                       (case s of (bd, total_first_75k, total_next_25k) \<Rightarrow>
                          (snd (add_tier bd first_75k (rate_of t) [Lit (remarks t)]),
                           total_first_75k + first_75k * rate_of t, total_next_25k)))
         in (case tier_25k of
               None \<Rightarrow> s1
             | Some t \<Rightarrow>
                 (case s1 of (bd, total_first_75k, total_next_25k) \<Rightarrow>
                    (snd (add_tier bd next_25k (rate_of t) [Lit (remarks t)]),
                     total_first_75k, total_next_25k + next_25k * rate_of t))))
      else s)"

definition calc_ocbc_360 :: "real \<Rightarrow> bank_info \<Rightarrow> requirements \<Rightarrow> py_error + acc" where
  "calc_ocbc_360 deposit_amount bank_info bank_requirements =
     bind_err (next_tier (\<lambda>t. tier_type t = ''base'') (tiers bank_info)) (\<lambda>base_tier.
       let base_rate = rate_of base_tier;
           total_interest0 = deposit_amount * base_rate;
           bd0 = snd (add_tier [] deposit_amount base_rate [Lit ''Base Interest'']);
           first_75k = min deposit_amount 75000;
           next_25k = min (max (deposit_amount - 75000) 0) 25000;
           proc = process_ocbc_tier bank_info first_75k next_25k
       in
       bind_err (next_tier (\<lambda>t. tier_type t = ''salary'') (tiers bank_info)) (\<lambda>salary_tier.
         let has_salary = (has_salary bank_requirements
                             \<and> salary_amount bank_requirements \<ge> min_salary salary_tier);
             s1 = proc ''salary'' has_salary (bd0, 0, 0);
             s2 = proc ''save'' (increased_balance bank_requirements) s1
         in
         bind_err (next_tier (\<lambda>t. tier_type t = ''spend'') (tiers bank_info)) (\<lambda>spend_tier.
           let has_spend = (spend_amount bank_requirements \<ge> min_spend spend_tier);
               s3 = proc ''spend'' has_spend s2;
               s4 = proc ''insure'' (has_insurance bank_requirements) s3;
               s5 = proc ''invest'' (has_investments bank_requirements) s4;
               s6 = proc ''grow'' (grew_wealth bank_requirements) s5
           in (case s6 of (bd, total_first_75k, total_next_25k) \<Rightarrow>
                 Inr (total_interest0 + (total_first_75k + total_next_25k), bd)))))"

subsection \<open>BOC SmartSaver\<close>

text \<open>
  Base interest over the base tiers in ascending cap order (\<^verbatim>\<open>sorted\<close> is stable, as
  \<open>sort_key\<close> is). \<^verbatim>\<open>remaining_amount\<close> is never decremented; \<^verbatim>\<open>prev_cap\<close> moves.
\<close>

fun boc_base_loop :: "tier list \<Rightarrow> real \<Rightarrow> real \<Rightarrow> acc \<Rightarrow> acc" where
  "boc_base_loop [] remaining_amount prev_cap a = a"
| "boc_base_loop (t # ts) remaining_amount prev_cap a =
     (let cap = cap_amount t;
          tier_size = cap - prev_cap;
          amount_in_tier = min (max 0 (remaining_amount - prev_cap)) tier_size
      in if amount_in_tier \<le> 0 then a
         else boc_base_loop ts remaining_amount cap
                (add_interest_then_tier a amount_in_tier (rate_of t)
                   [Lit ''Base Interest ('', Lit (balance_tier t), Lit '')'']))"

text \<open>The label of the salary bonus holds one non-ASCII character, given by its UTF-8 bytes.\<close>

definition boc_salary_bonus :: "real \<Rightarrow> bank_info \<Rightarrow> requirements \<Rightarrow> acc \<Rightarrow> py_error + acc" where
  "boc_salary_bonus deposit_amount bank_info bank_requirements a =
     (if has_salary bank_requirements \<and> salary_amount bank_requirements \<ge> 2000 then
        bind_err (next_tier (\<lambda>t. tier_type t = ''salary'') (tiers bank_info)) (\<lambda>salary_tier.
          let bonus_amount = min deposit_amount (cap_amount salary_tier)
          in Inr (add_interest_then_tier a bonus_amount (rate_of salary_tier)
                    [Lit (''Salary Credit Bonus ('' @ [CHR 0xE2, CHR 0x89, CHR 0xA5] @ ''$2,000)'')]))
      else Inr a)"

definition boc_wealth_bonus :: "real \<Rightarrow> bank_info \<Rightarrow> requirements \<Rightarrow> acc \<Rightarrow> py_error + acc" where
  "boc_wealth_bonus deposit_amount bank_info bank_requirements a =
     (if has_insurance bank_requirements then
        bind_err (next_tier (\<lambda>t. tier_type t = ''wealth'') (tiers bank_info)) (\<lambda>wealth_tier.
          let bonus_amount = min deposit_amount (cap_amount wealth_tier)
          in Inr (add_interest_then_tier a bonus_amount (rate_of wealth_tier)
                    [Lit ''Wealth Bonus (Insurance)'']))
      else Inr a)"

definition boc_spend_bonus :: "real \<Rightarrow> bank_info \<Rightarrow> requirements \<Rightarrow> acc \<Rightarrow> py_error + acc" where
  "boc_spend_bonus deposit_amount bank_info bank_requirements a =
     (let spend_amount = spend_amount bank_requirements in
      if spend_amount \<ge> 500 then
        (let spend_tiers = filter (\<lambda>t. tier_type t = ''spend'') (tiers bank_info) in
         bind_err (if spend_amount \<ge> 1500
                   then next_tier (\<lambda>t. balance_tier t = ''2'') spend_tiers
                   else next_tier (\<lambda>t. balance_tier t = ''1'') spend_tiers) (\<lambda>spend_tier.
           let bonus_amount = min deposit_amount (cap_amount spend_tier)
           in Inr (add_interest_then_tier a bonus_amount (rate_of spend_tier)
                     [Lit ''Spend Bonus ($'', Num spend_amount, Lit '')''])))
      else Inr a)"

definition boc_payment_bonus :: "real \<Rightarrow> bank_info \<Rightarrow> requirements \<Rightarrow> acc \<Rightarrow> py_error + acc" where
  "boc_payment_bonus deposit_amount bank_info bank_requirements a =
     (let giro_count = giro_count bank_requirements in
      if giro_count \<ge> 3 then
        bind_err (next_tier (\<lambda>t. tier_type t = ''payment'') (tiers bank_info)) (\<lambda>payment_tier.
          let bonus_amount = min deposit_amount (cap_amount payment_tier)
          in Inr (add_interest_then_tier a bonus_amount (rate_of payment_tier)
                    [Lit ''Payment Bonus ('', Cnt giro_count, Lit '' bill payments)'']))
      else Inr a)"

definition calc_boc_smartsaver :: "real \<Rightarrow> bank_info \<Rightarrow> requirements \<Rightarrow> py_error + acc" where
  "calc_boc_smartsaver deposit_amount bank_info bank_requirements =
     (let base_tiers = sort_key cap_amount (filter (\<lambda>t. tier_type t = ''base'') (tiers bank_info));
          a0 = boc_base_loop base_tiers deposit_amount 0 (0, [])
      in if deposit_amount \<ge> 1500 then
           bind_err (boc_salary_bonus deposit_amount bank_info bank_requirements a0) (\<lambda>a1.
           bind_err (boc_wealth_bonus deposit_amount bank_info bank_requirements a1) (\<lambda>a2.
           bind_err (boc_spend_bonus deposit_amount bank_info bank_requirements a2)
             (boc_payment_bonus deposit_amount bank_info bank_requirements)))
         else Inr a0)"

subsection \<open>Chocolate\<close>

text \<open>
  The first base-rate product is assigned to \<^verbatim>\<open>total_interest\<close> and overwritten by
  \<^verbatim>\<open>total_interest = interest_20k\<close>; only the lookup before it can still raise.
\<close>

definition calc_chocolate :: "real \<Rightarrow> bank_info \<Rightarrow> requirements \<Rightarrow> py_error + acc" where
  "calc_chocolate deposit_amount bank_info bank_requirements =
     bind_err (next_tier (\<lambda>t. tier_type t = ''base'') (tiers bank_info)) (\<lambda>base_tier.
       let first_20k = min deposit_amount 20000 in
       bind_err (next_tier (\<lambda>t. tier_type t = ''base'' \<and> cap_amount t = 20000) (tiers bank_info))
         (\<lambda>first_tier.
           let rate_20k = rate_of first_tier;
               interest_20k = first_20k * rate_20k;
               a1 = (interest_20k, snd (add_tier [] first_20k rate_20k [Lit ''First $20,000'']))
           in if deposit_amount > 20000 then
                (let next_30k = min (deposit_amount - 20000) 30000 in
                 bind_err (next_tier (\<lambda>t. tier_type t = ''base'' \<and> cap_amount t = 30000)
                             (tiers bank_info)) (\<lambda>second_tier.
                   Inr (add_interest_then_tier a1 next_30k (rate_of second_tier)
                          [Lit ''Next $30,000''])))
              else Inr a1))"

subsection \<open>DBS Multiplier\<close>

definition calculate_dbs_eligible_transactions :: "requirements \<Rightarrow> real" where
  "calculate_dbs_eligible_transactions r =
     (let total = 0;
          total = (if has_salary r then total + salary_amount r else total);
          total = total + spend_amount r;
          total = (if has_insurance r then total + insurance_amount r else total);
          total = (if has_investments r then total + investment_amount r else total);
          total = (if has_home_loan r then total + home_loan_amount r else total)
      in total)"

definition count_dbs_categories :: "requirements \<Rightarrow> nat" where
  "count_dbs_categories r =
     (let count = 0;
          count = (if spend_amount r > 0 then count + 1 else count);
          count = (if has_insurance r \<and> insurance_amount r > 0 then count + 1 else count);
          count = (if has_investments r \<and> investment_amount r > 0 then count + 1 else count);
          count = (if has_home_loan r \<and> home_loan_amount r > 0 then count + 1 else count)
      in count)"

text \<open>The decimal text of a count, as \<^verbatim>\<open>f"cat{category_count}_"\<close> renders it.\<close>

definition digit_char :: "nat \<Rightarrow> char" where
  "digit_char n = ''0123456789'' ! n"

function str_of_nat :: "nat \<Rightarrow> string" where
  "str_of_nat n =
     (if n < 10 then [digit_char n] else str_of_nat (n div 10) @ [digit_char (n mod 10)])"
  by pat_completeness auto
termination
  by (relation "measure id") auto

declare str_of_nat.simps [simp del]

definition dbs_base_rate :: real where
  "dbs_base_rate = 5 / 10000"

text \<open>
  Only \<^verbatim>\<open>next\<close> can raise inside the \<^verbatim>\<open>try\<close>, before anything is appended; the handler
  falls back to the base rate on the whole deposit (and shows a message, which has no
  effect on the result).
\<close>

definition calc_dbs_multiplier :: "real \<Rightarrow> bank_info \<Rightarrow> requirements \<Rightarrow> py_error + acc" where
  "calc_dbs_multiplier deposit_amount bank_info bank_requirements =
     (if \<not> has_salary bank_requirements then
        Inr (add_to_total (0, []) deposit_amount dbs_base_rate
               [Lit ''Base Interest (No Salary Credit)''])
      else
        (let total_transactions = calculate_dbs_eligible_transactions bank_requirements;
             category_count = count_dbs_categories bank_requirements
         in if total_transactions < 500 \<or> category_count = 0 then
              Inr (add_to_total (0, []) deposit_amount dbs_base_rate
                     [Lit ''Base Interest (Min Transaction Not Met)''])
            else
              (let ttype = ''cat'' @ str_of_nat category_count @ ''_'' @
                             (if total_transactions \<ge> 30000 then ''high''
                              else if total_transactions \<ge> 15000 then ''mid''
                              else ''low'')
               in case next_tier (\<lambda>t. tier_type t = ttype) (tiers bank_info) of
                    Inr tier \<Rightarrow>
                      (let rate = rate_of tier;
                           cap_amount = cap_amount tier;
                           eligible_amount = min deposit_amount cap_amount;
                           a1 = (if eligible_amount > 0
                                 then add_to_total (0, []) eligible_amount rate
                                        [Lit ''Bonus Interest (Income + '', Cnt (int category_count),
                                         Lit '' categories, $'', Num total_transactions,
                                         Lit '' transactions)'']
                                 else (0, []))
                       in Inr (if deposit_amount > cap_amount
                               then add_to_total a1 (deposit_amount - cap_amount) dbs_base_rate
                                      [Lit ''Base Interest (Amount Above Cap)'']
                               else a1))
                  | Inl e \<Rightarrow>
                      (if e = StopIteration then
                         Inr (add_to_total (0, []) deposit_amount dbs_base_rate
                                [Lit ''Base Interest (No Matching Tier)''])
                       else Inl e))))"

subsection \<open>The dispatch on the product name\<close>

definition calculate_bank_interest ::
  "real \<Rightarrow> bank_info \<Rightarrow> requirements \<Rightarrow> py_error + calculation_result" where
  "calculate_bank_interest deposit_amount bank_info bank_requirements =
     bind_err
       (if bank bank_info = ''SC BonusSaver'' then
          calc_sc_bonussaver deposit_amount bank_info bank_requirements
        else if bank bank_info = ''UOB One'' then
          calc_uob_one deposit_amount bank_info bank_requirements
        else if bank bank_info = ''OCBC 360'' then
          calc_ocbc_360 deposit_amount bank_info bank_requirements
        else if bank bank_info = ''BOC SmartSaver'' then
          calc_boc_smartsaver deposit_amount bank_info bank_requirements
        else if bank bank_info = ''Chocolate'' then
          calc_chocolate deposit_amount bank_info bank_requirements
        else if bank bank_info = ''DBS Multiplier'' then
          calc_dbs_multiplier deposit_amount bank_info bank_requirements
        else Inr (0, []))
       (\<lambda>a. Inr (result_of a))"

section \<open>Python containers and loops\<close>

text \<open>
  A dict keeps insertion order: an association list with one entry per key.
  \<^verbatim>\<open>d[k] = v\<close> replaces the value of a key that is there and appends a new key.
\<close>

fun dict_set :: "('k \<times> 'v) list \<Rightarrow> 'k \<Rightarrow> 'v \<Rightarrow> ('k \<times> 'v) list" where
  "dict_set [] k v = [(k, v)]"
| "dict_set ((k', v') # d) k v =
     (if k' = k then (k, v) # d else (k', v') # dict_set d k v)"

text \<open>\<^verbatim>\<open>d[k]\<close>: the value, or KeyError.\<close>

definition dict_item :: "('k \<times> 'v) list \<Rightarrow> 'k \<Rightarrow> py_error + 'v" where
  "dict_item d k = (case map_of d k of None \<Rightarrow> Inl KeyError | Some v \<Rightarrow> Inr v)"

text \<open>\<^verbatim>\<open>range(0, stop, step)\<close> for a positive step.\<close>

definition py_range :: "int \<Rightarrow> int \<Rightarrow> int list" where
  "py_range stop step = map (\<lambda>k. int k * step) [0 ..< nat ((stop + step - 1) div step)]"

text \<open>A \<^verbatim>\<open>for\<close> loop whose body updates a state and may raise: the first error ends it.\<close>

fun for_each :: "('a \<Rightarrow> 's \<Rightarrow> py_error + 's) \<Rightarrow> 'a list \<Rightarrow> 's \<Rightarrow> py_error + 's" where
  "for_each body [] s = Inr s"
| "for_each body (x # xs) s = bind_err (body x s) (for_each body xs)"

section \<open>optimize\_bank\_distribution\<close>

record solution =
  distribution :: "(string \<times> int) list"
  sol_total_interest :: real
  sol_breakdown :: "(string \<times> tier_application list) list"
  sol_salary_bank :: "string option"

definition empty_solution :: solution where
  "empty_solution =
     \<lparr>distribution = [], sol_total_interest = 0, sol_breakdown = [], sol_salary_bank = None\<rparr>"

definition initial_top_solutions :: "solution list" where
  "initial_top_solutions = [empty_solution, empty_solution, empty_solution]"

definition bonus_caps :: "(string \<times> int) list" where
  "bonus_caps =
     [(''UOB One'', 150000), (''SC BonusSaver'', 100000), (''OCBC 360'', 100000),
      (''BOC SmartSaver'', 100000), (''Chocolate'', 50000)]"

text \<open>
  The requirements copy \<^verbatim>\<open>try_combination\<close> builds for one product. For UOB One the two
  assignments write back the user's own values.
\<close>

definition bank_reqs :: "requirements \<Rightarrow> string option \<Rightarrow> string \<Rightarrow> requirements" where
  "bank_reqs user_requirements salary_bank bank_name =
     (if bank_name = ''UOB One'' then
        user_requirements\<lparr>has_salary := has_salary user_requirements,
                          salary_amount := salary_amount user_requirements\<rparr>
      else
        user_requirements\<lparr>has_salary := (Some bank_name = salary_bank)
                                           \<and> has_salary user_requirements\<rparr>)"

text \<open>
  The body of the loop over \<^verbatim>\<open>amounts_dict.items()\<close>; the state is
  (\<^verbatim>\<open>total_interest\<close>, \<^verbatim>\<open>all_breakdowns\<close>). \<^verbatim>\<open>banks_data[bank]\<close> is evaluated before
  the call and raises KeyError for an unknown product.
\<close>

definition eval_bank ::
  "(string \<rightharpoonup> bank_info) \<Rightarrow> requirements \<Rightarrow> string option \<Rightarrow> string \<times> int \<Rightarrow>
   real \<times> (string \<times> tier_application list) list \<Rightarrow>
   py_error + real \<times> (string \<times> tier_application list) list" where
  "eval_bank banks_data user_requirements salary_bank item st =
     (case item of (bank_name, amount) \<Rightarrow>
        if amount > 0 then
          (case banks_data bank_name of
             None \<Rightarrow> Inl KeyError
           | Some info \<Rightarrow>
               bind_err (calculate_bank_interest (of_int amount) info
                           (bank_reqs user_requirements salary_bank bank_name)) (\<lambda>result.
                 Inr (fst st + total_interest result,
                      dict_set (snd st) bank_name (breakdown result))))
        else Inr st)"

text \<open>The inner loop \<^verbatim>\<open>for j in range(len(top_solutions)-1, i, -1)\<close>, counting \<open>j\<close> down.\<close>

fun shift_down :: "nat \<Rightarrow> nat \<Rightarrow> solution list \<Rightarrow> solution list" where
  "shift_down i 0 top_solutions = top_solutions"
| "shift_down i (Suc j) top_solutions =
     (if i < Suc j then shift_down i j (top_solutions[Suc j := top_solutions ! j])
      else top_solutions)"

text \<open>The outer loop \<^verbatim>\<open>for i in range(len(top_solutions))\<close>, left at the first insertion.\<close>

fun insert_loop :: "nat list \<Rightarrow> solution \<Rightarrow> solution list \<Rightarrow> solution list" where
  "insert_loop [] new top_solutions = top_solutions"
| "insert_loop (i # is) new top_solutions =
     (if sol_total_interest new > sol_total_interest (top_solutions ! i) then
        (shift_down i (length top_solutions - 1) top_solutions)[i := new]
      else insert_loop is new top_solutions)"

definition insert_solution :: "solution list \<Rightarrow> solution \<Rightarrow> solution list" where
  "insert_solution top_solutions new = insert_loop [0 ..< length top_solutions] new top_solutions"

text \<open>
  \<^verbatim>\<open>try_combination\<close> mutates the enclosing \<^verbatim>\<open>top_solutions\<close>; the list is passed in and
  returned. The scenario counter and the progress texts do not reach the result and are
  left out.
\<close>

definition try_combination ::
  "int \<Rightarrow> (string \<rightharpoonup> bank_info) \<Rightarrow> requirements \<Rightarrow> (string \<times> int) list \<Rightarrow> string option \<Rightarrow>
   solution list \<Rightarrow> py_error + solution list" where
  "try_combination total_amount banks_data user_requirements amounts_dict salary_bank top_solutions =
     (if \<bar>sum_list (map snd amounts_dict) - total_amount\<bar> > 5000 then Inr top_solutions
      else
        bind_err (for_each (eval_bank banks_data user_requirements salary_bank) amounts_dict (0, []))
          (\<lambda>st. Inr (insert_solution top_solutions
                       \<lparr>distribution = amounts_dict, sol_total_interest = fst st,
                        sol_breakdown = snd st, sol_salary_bank = salary_bank\<rparr>)))"

fun try_all_combinations ::
  "int \<Rightarrow> (string \<rightharpoonup> bank_info) \<Rightarrow> requirements \<Rightarrow> int \<Rightarrow> string list \<Rightarrow> (string \<times> int) list \<Rightarrow>
   string option \<Rightarrow> solution list \<Rightarrow> py_error + solution list" where
  "try_all_combinations total_amount banks_data user_requirements remaining_amount []
       current_distribution salary_bank top_solutions =
     (if remaining_amount < 5000 then
        try_combination total_amount banks_data user_requirements current_distribution salary_bank
          top_solutions
      else Inr top_solutions)"
| "try_all_combinations total_amount banks_data user_requirements remaining_amount
       (current_bank # next_banks) current_distribution salary_bank top_solutions =
     bind_err (dict_item bonus_caps current_bank) (\<lambda>cap.
       let max_amount = min remaining_amount cap in
       for_each (\<lambda>amount top.
           if amount \<le> max_amount then
             (let new_distribution =
                    (if amount > 0 then dict_set current_distribution current_bank amount
                     else current_distribution)
              in try_all_combinations total_amount banks_data user_requirements
                   (remaining_amount - amount) next_banks new_distribution salary_bank top)
           else Inr top)
         (py_range (max_amount + 5000) 5000) top_solutions)"

definition all_banks :: "string list" where
  "all_banks = [''UOB One'', ''SC BonusSaver'', ''OCBC 360'', ''BOC SmartSaver'', ''Chocolate'']"

definition salary_banks :: "string list" where
  "salary_banks = [''SC BonusSaver'', ''OCBC 360'', ''BOC SmartSaver'']"

text \<open>The passes with the salary credited to one product, entered when the user has one.\<close>

definition salary_pass ::
  "int \<Rightarrow> (string \<rightharpoonup> bank_info) \<Rightarrow> requirements \<Rightarrow> string \<Rightarrow> solution list \<Rightarrow>
   py_error + solution list" where
  "salary_pass total_amount banks_data user_requirements salary_bank top_solutions =
     (let non_salary_banks = filter (\<lambda>bank. bank \<noteq> salary_bank) all_banks in
      bind_err (dict_item bonus_caps salary_bank) (\<lambda>cap.
        for_each (\<lambda>amount top.
            if amount \<le> total_amount then
              (let initial_distribution = (if amount > 0 then [(salary_bank, amount)] else [])
               in try_all_combinations total_amount banks_data user_requirements
                    (total_amount - amount) non_salary_banks initial_distribution
                    (Some salary_bank) top)
            else Inr top)
          (py_range (min (total_amount + 5000) (cap + 5000)) 5000) top_solutions))"

definition optimize_bank_distribution ::
  "int \<Rightarrow> (string \<rightharpoonup> bank_info) \<Rightarrow> requirements \<Rightarrow> py_error + solution list" where
  "optimize_bank_distribution total_amount banks_data user_requirements =
     bind_err
       (if has_salary user_requirements then
          for_each (salary_pass total_amount banks_data user_requirements) salary_banks
            initial_top_solutions
        else Inr initial_top_solutions)
       (\<lambda>top. try_all_combinations total_amount banks_data user_requirements total_amount
                all_banks [] None top)"

section \<open>optimize\_spend\_allocation\<close>

definition min_spends :: "(string \<times> real) list" where
  "min_spends =
     [(''UOB One'', 500), (''SC BonusSaver'', 1000), (''OCBC 360'', 500),
      (''BOC SmartSaver'', 500)]"

text \<open>
  The state of the search is (\<^verbatim>\<open>best_allocation\<close>, \<^verbatim>\<open>best_total_interest\<close>,
  \<^verbatim>\<open>best_breakdown\<close>), the three \<^verbatim>\<open>nonlocal\<close> variables of \<^verbatim>\<open>try_allocation\<close>.
\<close>

type_synonym best =
  "(string \<times> real) list \<times> real \<times> (string \<times> calculation_result) list"

text \<open>
  The requirements copy of the base case. The UOB One assignments write back the base
  values.
\<close>

definition spend_reqs :: "requirements \<Rightarrow> string \<Rightarrow> real \<Rightarrow> requirements" where
  "spend_reqs base_requirements bank_name spend =
     (let r = base_requirements\<lparr>spend_amount := spend\<rparr> in
      if bank_name = ''UOB One'' then
        r\<lparr>has_salary := has_salary base_requirements,
          salary_amount := salary_amount base_requirements\<rparr>
      else r)"

text \<open>\<^verbatim>\<open>deposit_amounts.get(bank, 0)\<close>\<close>

definition deposit_of :: "(string \<rightharpoonup> real) \<Rightarrow> string \<Rightarrow> real" where
  "deposit_of deposit_amounts bank_name =
     (case deposit_amounts bank_name of None \<Rightarrow> 0 | Some d \<Rightarrow> d)"

definition eval_spend ::
  "(string \<rightharpoonup> bank_info) \<Rightarrow> (string \<rightharpoonup> real) \<Rightarrow> requirements \<Rightarrow> string \<times> real \<Rightarrow>
   real \<times> (string \<times> calculation_result) list \<Rightarrow>
   py_error + real \<times> (string \<times> calculation_result) list" where
  "eval_spend banks_data deposit_amounts base_requirements item st =
     (case item of (bank_name, spend) \<Rightarrow>
        (case banks_data bank_name of
           None \<Rightarrow> Inl KeyError
         | Some info \<Rightarrow>
             bind_err (calculate_bank_interest (deposit_of deposit_amounts bank_name) info
                         (spend_reqs base_requirements bank_name spend)) (\<lambda>result.
               Inr (fst st + total_interest result, dict_set (snd st) bank_name result))))"

text \<open>The base case of \<^verbatim>\<open>try_allocation\<close>: evaluate the allocation, keep it if it is better.\<close>

definition evaluate_allocation ::
  "(string \<rightharpoonup> bank_info) \<Rightarrow> (string \<rightharpoonup> real) \<Rightarrow> requirements \<Rightarrow> (string \<times> real) list \<Rightarrow>
   best \<Rightarrow> py_error + best" where
  "evaluate_allocation banks_data deposit_amounts base_requirements current_allocation b =
     bind_err (for_each (eval_spend banks_data deposit_amounts base_requirements)
                 current_allocation (0, []))
       (\<lambda>st. Inr (if fst st > fst (snd b) then (current_allocation, fst st, snd st) else b))"

text \<open>
  In the source the third call reuses the dict \<^verbatim>\<open>new_allocation\<close> of the second call and
  overwrites the product's entry; the kept best allocation is a copy taken inside the
  call, so the overwrite does not reach it.
\<close>

fun try_allocation ::
  "(string \<rightharpoonup> bank_info) \<Rightarrow> (string \<rightharpoonup> real) \<Rightarrow> requirements \<Rightarrow> real \<Rightarrow> string list \<Rightarrow>
   (string \<times> real) list \<Rightarrow> best \<Rightarrow> py_error + best" where
  "try_allocation banks_data deposit_amounts base_requirements remaining_spend []
       current_allocation b =
     evaluate_allocation banks_data deposit_amounts base_requirements current_allocation b"
| "try_allocation banks_data deposit_amounts base_requirements remaining_spend
       (current_bank # rest) current_allocation b =
     (if remaining_spend < min_list (map snd min_spends) then
        evaluate_allocation banks_data deposit_amounts base_requirements current_allocation b
      else
        bind_err (dict_item min_spends current_bank) (\<lambda>min_spend.
        bind_err (try_allocation banks_data deposit_amounts base_requirements remaining_spend
                    rest current_allocation b) (\<lambda>b1.
          if remaining_spend \<ge> min_spend then
            (let new_allocation = dict_set current_allocation current_bank min_spend in
             bind_err (try_allocation banks_data deposit_amounts base_requirements
                         (remaining_spend - min_spend) rest new_allocation b1) (\<lambda>b2.
               if current_bank = ''BOC SmartSaver'' \<and> remaining_spend \<ge> 1500 then
                 try_allocation banks_data deposit_amounts base_requirements
                   (remaining_spend - 1500) rest
                   (dict_set new_allocation current_bank 1500) b2
               else Inr b2))
          else Inr b1)))"

definition eligible_banks :: "(string \<rightharpoonup> real) \<Rightarrow> string list" where
  "eligible_banks deposit_amounts =
     filter (\<lambda>bank_name. case deposit_amounts bank_name of None \<Rightarrow> False | Some d \<Rightarrow> d > 0)
       (map fst min_spends)"

definition optimize_spend_allocation ::
  "real \<Rightarrow> (string \<rightharpoonup> bank_info) \<Rightarrow> (string \<rightharpoonup> real) \<Rightarrow> requirements \<Rightarrow> py_error + best" where
  "optimize_spend_allocation total_spend banks_data deposit_amounts base_requirements =
     try_allocation banks_data deposit_amounts base_requirements total_spend
       (eligible_banks deposit_amounts) [] ([], 0, [])"

section \<open>Sample tier tables\<close>

text \<open>
  The rates file is not part of the sources. The tables below are a small, well-formed
  instance with the rows the six rule variants read; they are used to run the functions
  on concrete inputs.
\<close>

definition tier_row ::
  "string \<Rightarrow> string \<Rightarrow> real \<Rightarrow> string \<Rightarrow> real \<Rightarrow> real \<Rightarrow> real \<Rightarrow> string \<Rightarrow> tier" where
  "tier_row ttype btier rate rtype mspend msalary cap rem =
     \<lparr>tier_type = ttype, balance_tier = btier, interest_rate = rate, requirement_type = rtype,
      min_spend = mspend, min_salary = msalary, cap_amount = cap, remarks = rem\<rparr>"

definition sample_sc :: bank_info where
  "sample_sc = \<lparr>bank = ''SC BonusSaver'', tiers =
     [tier_row ''base'' ''1'' (5 / 100) ''base'' 0 0 100000 ''Base'',
      tier_row ''salary'' ''1'' 1 ''salary'' 0 3000 100000 ''Salary'',
      tier_row ''spend'' ''1'' 1 ''spend'' 1000 0 100000 ''Spend'',
      tier_row ''invest'' ''1'' 2 ''invest'' 0 0 100000 ''Invest'',
      tier_row ''insure'' ''1'' 2 ''insure'' 0 0 100000 ''Insure'']\<rparr>"

definition sample_uob :: bank_info where
  "sample_uob = \<lparr>bank = ''UOB One'', tiers =
     [tier_row ''base'' ''1'' (5 / 100) ''base'' 0 0 150000 ''Base'',
      tier_row ''bonus'' ''First 75k'' 3 ''salary'' 500 0 75000 ''Salary'',
      tier_row ''bonus'' ''Next 50k'' 4 ''salary'' 500 0 50000 ''Salary'',
      tier_row ''bonus'' ''First 75k'' 2 ''giro'' 500 0 75000 ''Giro'',
      tier_row ''bonus'' ''First 75k'' 1 ''spend_only'' 500 0 75000 ''Spend'']\<rparr>"

definition sample_ocbc :: bank_info where
  "sample_ocbc = \<lparr>bank = ''OCBC 360'', tiers =
     [tier_row ''base'' ''1'' (5 / 100) ''base'' 0 0 100000 ''Base'',
      tier_row ''salary'' ''1'' 2 ''salary'' 0 1800 75000 ''Salary first 75k'',
      tier_row ''salary'' ''2'' 4 ''salary'' 0 1800 25000 ''Salary next 25k'',
      tier_row ''spend'' ''1'' (1 / 2) ''spend'' 500 0 75000 ''Spend first 75k'',
      tier_row ''spend'' ''2'' (1 / 2) ''spend'' 500 0 25000 ''Spend next 25k'']\<rparr>"

definition sample_boc :: bank_info where
  "sample_boc = \<lparr>bank = ''BOC SmartSaver'', tiers =
     [tier_row ''base'' ''1'' (1 / 4) ''base'' 0 0 5000 ''Base'',
      tier_row ''base'' ''2'' (1 / 2) ''base'' 0 0 100000 ''Base'',
      tier_row ''salary'' ''1'' 2 ''salary'' 0 2000 100000 ''Salary'',
      tier_row ''wealth'' ''1'' 2 ''wealth'' 0 0 100000 ''Wealth'',
      tier_row ''spend'' ''1'' (1 / 2) ''spend'' 500 0 100000 ''Spend'',
      tier_row ''spend'' ''2'' 1 ''spend'' 1500 0 100000 ''Spend'',
      tier_row ''payment'' ''1'' (9 / 10) ''payment'' 0 0 100000 ''Payment'']\<rparr>"

definition sample_chocolate :: bank_info where
  "sample_chocolate = \<lparr>bank = ''Chocolate'', tiers =
     [tier_row ''base'' ''1'' (18 / 5) ''base'' 0 0 20000 ''First 20k'',
      tier_row ''base'' ''2'' (16 / 5) ''base'' 0 0 30000 ''Next 30k'']\<rparr>"

definition sample_dbs :: bank_info where
  "sample_dbs = \<lparr>bank = ''DBS Multiplier'', tiers =
     [tier_row ''cat1_low'' ''1'' (9 / 5) ''salary'' 0 0 50000 ''One category'',
      tier_row ''cat2_low'' ''1'' (21 / 10) ''salary'' 0 0 100000 ''Two categories'']\<rparr>"

definition sample_banks :: "string \<rightharpoonup> bank_info" where
  "sample_banks =
     map_of [(''UOB One'', sample_uob), (''SC BonusSaver'', sample_sc),
             (''OCBC 360'', sample_ocbc), (''BOC SmartSaver'', sample_boc),
             (''Chocolate'', sample_chocolate), (''DBS Multiplier'', sample_dbs)]"

definition no_requirements :: requirements where
  "no_requirements =
     \<lparr>has_salary = False, salary_amount = 0, spend_amount = 0, giro_count = 0,
      has_insurance = False, insurance_amount = 0, has_investments = False,
      investment_amount = 0, has_home_loan = False, home_loan_amount = 0,
      increased_balance = False, grew_wealth = False\<rparr>"

definition salaried_requirements :: requirements where
  "salaried_requirements =
     no_requirements\<lparr>has_salary := True, salary_amount := 5000, spend_amount := 600\<rparr>"

section \<open>Invariants used in the proofs\<close>

text \<open>The running total equals the sum of the interest of the entries appended so far.\<close>

definition acc_ok :: "acc \<Rightarrow> bool" where
  "acc_ok a = (fst a = sum_list (map tier_interest (snd a)))"

text \<open>
  OCBC 360 keeps the bonus totals apart from the base interest until the end: the entries
  sum to the base interest plus both band totals.
\<close>

definition ocbc_ok :: "real \<Rightarrow> ocbc_state \<Rightarrow> bool" where
  "ocbc_ok base s =
     (sum_list (map tier_interest (fst s)) = base + (fst (snd s) + snd (snd s)))"

section \<open>Invariants of the distribution search\<close>

text \<open>The kept solutions are in descending order of \<open>total_interest\<close>.\<close>

definition sorted_desc :: "solution list \<Rightarrow> bool" where
  "sorted_desc sols = sorted_wrt (\<lambda>a b. sol_total_interest a \<ge> sol_total_interest b) sols"

text \<open>
  What the optimizer returns for \$5,000 on the sample tables with no eligibility: the
  three best single-product allocations.
\<close>

definition sample_result :: "solution list" where
  "sample_result =
     [\<lparr>distribution = [(''Chocolate'', 5000)], sol_total_interest = 180,
       sol_breakdown =
         [(''Chocolate'',
           [\<lparr>amount_in_tier = 5000, tier_rate = 9 / 250, tier_interest = 180,
             monthly_interest = 15, description = [Lit ''First $20,000'']\<rparr>])],
       sol_salary_bank = None\<rparr>,
      \<lparr>distribution = [(''BOC SmartSaver'', 5000)], sol_total_interest = 25 / 2,
       sol_breakdown =
         [(''BOC SmartSaver'',
           [\<lparr>amount_in_tier = 5000, tier_rate = 1 / 400, tier_interest = 25 / 2,
             monthly_interest = 25 / 24,
             description = [Lit ''Base Interest ('', Lit ''1'', Lit '')'']\<rparr>])],
       sol_salary_bank = None\<rparr>,
      \<lparr>distribution = [(''OCBC 360'', 5000)], sol_total_interest = 5 / 2,
       sol_breakdown =
         [(''OCBC 360'',
           [\<lparr>amount_in_tier = 5000, tier_rate = 1 / 2000, tier_interest = 5 / 2,
             monthly_interest = 5 / 24, description = [Lit ''Base Interest'']\<rparr>])],
       sol_salary_bank = None\<rparr>]"

text \<open>
  Every recorded allocation is positive, a multiple of the increment, and within the
  product's bonus cap.
\<close>

definition dist_ok :: "(string \<times> int) list \<Rightarrow> bool" where
  "dist_ok d =
     (\<forall>(b, a) \<in> set d. 0 < a \<and> 5000 dvd a
        \<and> (\<exists>cap. map_of bonus_caps b = Some cap \<and> a \<le> cap))"

text \<open>
  The round trip as the specification words it: run \<^verbatim>\<open>calculate_bank_interest\<close> again on
  each (product, amount) pair of a distribution, with the requirements copy rebuilt from
  the recorded salary assignment, and add up the \<open>total_interest\<close> values. Unlike the loop
  of \<^verbatim>\<open>try_combination\<close> it does not skip any pair.
\<close>

fun rerun_from ::
  "(string \<rightharpoonup> bank_info) \<Rightarrow> requirements \<Rightarrow> string option \<Rightarrow> real \<Rightarrow> (string \<times> int) list \<Rightarrow>
   py_error + real" where
  "rerun_from banks_data user_requirements sb running [] = Inr running"
| "rerun_from banks_data user_requirements sb running ((b, a) # rest) =
     (case banks_data b of
        None \<Rightarrow> Inl KeyError
      | Some info \<Rightarrow>
          bind_err (calculate_bank_interest (of_int a) info (bank_reqs user_requirements sb b))
            (\<lambda>result. rerun_from banks_data user_requirements sb
                         (running + total_interest result) rest))"

definition rerun_total ::
  "(string \<rightharpoonup> bank_info) \<Rightarrow> requirements \<Rightarrow> solution \<Rightarrow> py_error + real" where
  "rerun_total banks_data user_requirements s =
     rerun_from banks_data user_requirements (sol_salary_bank s) 0 (distribution s)"

text \<open>
  A kept solution is either the placeholder the list is initialised with, or a candidate
  the search inserted: one with positive interest, within the tolerance, with a
  well-formed distribution, whose interest the round trip reproduces.
\<close>

definition sol_ok :: "int \<Rightarrow> (string \<rightharpoonup> bank_info) \<Rightarrow> requirements \<Rightarrow> solution \<Rightarrow> bool" where
  "sol_ok total_amount banks_data user_requirements s =
     (s = empty_solution \<or>
      (0 < sol_total_interest s
       \<and> \<bar>sum_list (map snd (distribution s)) - total_amount\<bar> \<le> 5000
       \<and> dist_ok (distribution s)
       \<and> rerun_total banks_data user_requirements s = Inr (sol_total_interest s)))"

definition top_ok ::
  "int \<Rightarrow> (string \<rightharpoonup> bank_info) \<Rightarrow> requirements \<Rightarrow> solution list \<Rightarrow> bool" where
  "top_ok total_amount banks_data user_requirements sols =
     (length sols = 3 \<and> sorted_desc sols
      \<and> (\<forall>s \<in> set sols. sol_ok total_amount banks_data user_requirements s))"

text \<open>A candidate whose interest ties with the second kept sample solution.\<close>

definition tie_candidate :: solution where
  "tie_candidate =
     \<lparr>distribution = [(''UOB One'', 5000)], sol_total_interest = 25 / 2, sol_breakdown = [],
      sol_salary_bank = None\<rparr>"

section \<open>Invariant of the spend search\<close>

text \<open>
  Deposits used to run the spend allocator: two funded products with a spend threshold,
  one funded product without, and one unfunded product.
\<close>

definition sample_deposits :: "string \<rightharpoonup> real" where
  "sample_deposits =
     map_of [(''UOB One'', 50000), (''BOC SmartSaver'', 50000), (''Chocolate'', 20000),
             (''OCBC 360'', 0)]"

text \<open>
  An entry of a spend allocation is well-formed when its product has a positive deposit
  and its spend is the product's minimum qualifying spend, or the elevated 1,500 for
  BOC SmartSaver.
\<close>

definition entry_ok :: "(string \<rightharpoonup> real) \<Rightarrow> string \<Rightarrow> real \<Rightarrow> bool" where
  "entry_ok deposit_amounts b s =
     ((\<exists>d. deposit_amounts b = Some d \<and> 0 < d)
      \<and> (\<exists>m. map_of min_spends b = Some m
             \<and> (s = m \<or> (b = ''BOC SmartSaver'' \<and> s = 1500))))"

definition alloc_ok :: "(string \<rightharpoonup> real) \<Rightarrow> (string \<times> real) list \<Rightarrow> bool" where
  "alloc_ok deposit_amounts allocation =
     (\<forall>x \<in> set allocation. entry_ok deposit_amounts (fst x) (snd x))"

section \<open>The branches of the distribution search\<close>

text \<open>
  The requirements copy in words: UOB One is evaluated with the user's own record; any
  other product is credited with the salary exactly when it is the branch's assignee and
  the user has a salary credit.
\<close>

definition amended_reqs :: "requirements \<Rightarrow> string option \<Rightarrow> string \<Rightarrow> requirements" where
  "amended_reqs user_requirements assignee bank_name =
     (if bank_name = ''UOB One'' then user_requirements
      else user_requirements\<lparr>has_salary := (assignee = Some bank_name
                                               \<and> has_salary user_requirements)\<rparr>)"

text \<open>
  The candidate distributions of one branch, in the order \<^verbatim>\<open>try_all_combinations\<close>
  reaches its leaves: the same enumeration with the leaf call taken out.
\<close>

fun leaves :: "int \<Rightarrow> string list \<Rightarrow> (string \<times> int) list \<Rightarrow> (string \<times> int) list list" where
  "leaves remaining_amount [] current_distribution =
     (if remaining_amount < 5000 then [current_distribution] else [])"
| "leaves remaining_amount (current_bank # next_banks) current_distribution =
     (case map_of bonus_caps current_bank of
        None \<Rightarrow> []
      | Some cap \<Rightarrow>
          (let max_amount = min remaining_amount cap in
           concat (map (\<lambda>amount.
               if amount \<le> max_amount then
                 leaves (remaining_amount - amount) next_banks
                   (if amount > 0 then dict_set current_distribution current_bank amount
                    else current_distribution)
               else [])
             (py_range (max_amount + 5000) 5000))))"

text \<open>
  The candidates of the pass that credits the salary to one product: the loop over that
  product's own amount, then the enumeration over the other products.
\<close>

definition salary_leaves :: "int \<Rightarrow> string \<Rightarrow> (string \<times> int) list list" where
  "salary_leaves total_amount salary_bank =
     (case map_of bonus_caps salary_bank of
        None \<Rightarrow> []
      | Some cap \<Rightarrow>
          concat (map (\<lambda>amount.
              if amount \<le> total_amount then
                leaves (total_amount - amount)
                  (filter (\<lambda>b. b \<noteq> salary_bank) all_banks)
                  (if amount > 0 then [(salary_bank, amount)] else [])
              else [])
            (py_range (min (total_amount + 5000) (cap + 5000)) 5000)))"

section \<open>Required tiers\<close>




section \<open>The total is the sum of the breakdown\<close>

lemma acc_ok_empty: "acc_ok (0, [])"
  by (simp add: acc_ok_def)

lemma acc_ok_add_to_total: "acc_ok a \<Longrightarrow> acc_ok (add_to_total a amount rate descr)"
  by (simp add: acc_ok_def add_to_total_def add_tier_def Let_def)

lemma acc_ok_add_interest_then_tier:
  "acc_ok a \<Longrightarrow> acc_ok (add_interest_then_tier a amount rate descr)"
  by (simp add: acc_ok_def add_interest_then_tier_def add_tier_def Let_def)

lemma bind_err_Inr:
  "bind_err m f = Inr y \<Longrightarrow> \<exists>x. m = Inr x \<and> f x = Inr y"
  by (cases m) (simp_all add: bind_err_def)

lemma acc_ok_sc_invest:
  "acc_ok a \<Longrightarrow> sc_invest_bonus bi r e a = Inr a' \<Longrightarrow> acc_ok a'"
  by (auto simp: sc_invest_bonus_def acc_ok_add_to_total split: if_splits dest!: bind_err_Inr)

lemma acc_ok_sc_insure:
  "acc_ok a \<Longrightarrow> sc_insure_bonus bi r e a = Inr a' \<Longrightarrow> acc_ok a'"
  by (auto simp: sc_insure_bonus_def acc_ok_add_to_total split: if_splits dest!: bind_err_Inr)

lemma acc_ok_sc: "calc_sc_bonussaver d bi r = Inr a \<Longrightarrow> acc_ok a"
  unfolding calc_sc_bonussaver_def Let_def
  by (auto dest!: bind_err_Inr intro!: acc_ok_add_to_total acc_ok_empty
           elim!: acc_ok_sc_insure[rotated] acc_ok_sc_invest[rotated])

lemma acc_ok_uob_ladder: "acc_ok a \<Longrightarrow> acc_ok (uob_ladder lbl ts rem a)"
  by (induction lbl ts rem a rule: uob_ladder.induct)
     (auto simp: Let_def acc_ok_add_interest_then_tier)

lemma acc_ok_uob: "calc_uob_one d bi r = Inr a \<Longrightarrow> acc_ok a"
  unfolding calc_uob_one_def Let_def
  by (auto split: if_splits dest!: bind_err_Inr
           intro!: acc_ok_uob_ladder acc_ok_add_interest_then_tier acc_ok_empty)

lemma acc_ok_boc_base: "acc_ok a \<Longrightarrow> acc_ok (boc_base_loop ts rem prev a)"
  by (induction ts rem prev a rule: boc_base_loop.induct)
     (auto simp: Let_def acc_ok_add_interest_then_tier)

lemma acc_ok_boc_salary: "acc_ok a \<Longrightarrow> boc_salary_bonus d bi r a = Inr a' \<Longrightarrow> acc_ok a'"
  by (auto simp: boc_salary_bonus_def Let_def acc_ok_add_interest_then_tier
           split: if_splits dest!: bind_err_Inr)

lemma acc_ok_boc_wealth: "acc_ok a \<Longrightarrow> boc_wealth_bonus d bi r a = Inr a' \<Longrightarrow> acc_ok a'"
  by (auto simp: boc_wealth_bonus_def Let_def acc_ok_add_interest_then_tier
           split: if_splits dest!: bind_err_Inr)

lemma acc_ok_boc_spend: "acc_ok a \<Longrightarrow> boc_spend_bonus d bi r a = Inr a' \<Longrightarrow> acc_ok a'"
  by (auto simp: boc_spend_bonus_def Let_def acc_ok_add_interest_then_tier
           split: if_splits dest!: bind_err_Inr)

lemma acc_ok_boc_payment: "acc_ok a \<Longrightarrow> boc_payment_bonus d bi r a = Inr a' \<Longrightarrow> acc_ok a'"
  by (auto simp: boc_payment_bonus_def Let_def acc_ok_add_interest_then_tier
           split: if_splits dest!: bind_err_Inr)

lemma acc_ok_boc: "calc_boc_smartsaver d bi r = Inr a \<Longrightarrow> acc_ok a"
  unfolding calc_boc_smartsaver_def Let_def
  by (auto split: if_splits dest!: bind_err_Inr
           intro!: acc_ok_boc_base acc_ok_empty
           dest: acc_ok_boc_salary[rotated] acc_ok_boc_wealth[rotated]
                 acc_ok_boc_spend[rotated] acc_ok_boc_payment[rotated])

lemma acc_ok_chocolate: "calc_chocolate d bi r = Inr a \<Longrightarrow> acc_ok a"
  unfolding calc_chocolate_def Let_def
  by (auto split: if_splits dest!: bind_err_Inr
           simp: acc_ok_def add_interest_then_tier_def add_tier_def Let_def)

lemma acc_ok_dbs: "calc_dbs_multiplier d bi r = Inr a \<Longrightarrow> acc_ok a"
  unfolding calc_dbs_multiplier_def Let_def
  by (auto split: if_splits sum.splits
           intro!: acc_ok_add_to_total acc_ok_empty)


lemma ocbc_ok_process:
  "ocbc_ok base s \<Longrightarrow> ocbc_ok base (process_ocbc_tier bi f n ttype met s)"
  by (cases s)
     (auto simp: ocbc_ok_def process_ocbc_tier_def add_tier_def Let_def split: option.splits)

lemma bind_err_InrE:
  assumes "bind_err m f = Inr y"
  obtains x where "m = Inr x" and "f x = Inr y"
  using assms by (cases m) (simp_all add: bind_err_def)

lemma bind_err_simps: "bind_err (Inl e) f = Inl e" "bind_err (Inr x) f = f x"
  by (simp_all add: bind_err_def)

lemma bind_err_weak_cong: "m = m' \<Longrightarrow> bind_err m f = bind_err m' f"
  by simp

lemma ocbc_ok_start: "ocbc_ok (d * rate) (snd (add_tier [] d rate descr), 0, 0)"
  by (simp add: ocbc_ok_def add_tier_def Let_def)

lemma ocbc_ok_final:
  "ocbc_ok base s \<Longrightarrow>
   (case s of (bd, t75, t25) \<Rightarrow> Inr (base + (t75 + t25), bd)) = Inr a \<Longrightarrow> acc_ok a"
  by (cases s) (auto simp: ocbc_ok_def acc_ok_def)

lemma acc_ok_ocbc: "calc_ocbc_360 d bi r = Inr a \<Longrightarrow> acc_ok a"
  apply (unfold calc_ocbc_360_def Let_def)
  apply (erule bind_err_InrE)+
  apply (erule ocbc_ok_final[rotated])
  apply (intro ocbc_ok_process ocbc_ok_start)
  done

lemma acc_ok_dispatch:
  "(if bank bi = ''SC BonusSaver'' then calc_sc_bonussaver d bi r
    else if bank bi = ''UOB One'' then calc_uob_one d bi r
    else if bank bi = ''OCBC 360'' then calc_ocbc_360 d bi r
    else if bank bi = ''BOC SmartSaver'' then calc_boc_smartsaver d bi r
    else if bank bi = ''Chocolate'' then calc_chocolate d bi r
    else if bank bi = ''DBS Multiplier'' then calc_dbs_multiplier d bi r
    else Inr (0, [])) = Inr a \<Longrightarrow> acc_ok a"
  using acc_ok_sc acc_ok_uob acc_ok_ocbc acc_ok_boc acc_ok_chocolate acc_ok_dbs acc_ok_empty
  by (metis Inr_inject)

text \<open>
  Claim C2. Whenever \<^verbatim>\<open>calculate_bank_interest\<close> returns a result, for any product, any
  deposit amount (in particular every amount \<open>\<ge> 0\<close>) and any requirements record, the
  \<open>total_interest\<close> of the result is the sum of \<open>tier_interest\<close> over the entries of its
  breakdown. The embedding computes in exact arithmetic, so the equality is exact.
\<close>

theorem total_interest_is_breakdown_sum:
  "calculate_bank_interest deposit_amount bank_info bank_requirements = Inr result \<Longrightarrow>
   total_interest result = sum_list (map tier_interest (breakdown result))"
proof -
  assume h: "calculate_bank_interest deposit_amount bank_info bank_requirements = Inr result"
  then obtain a where a: "acc_ok a" and r: "result = result_of a"
    unfolding calculate_bank_interest_def
    by (blast dest: bind_err_Inr acc_ok_dispatch)
  then show ?thesis by (simp add: result_of_def acc_ok_def)
qed

lemmas calc_defs =
  calculate_bank_interest_def calc_sc_bonussaver_def calc_uob_one_def calc_ocbc_360_def
  calc_boc_smartsaver_def calc_chocolate_def calc_dbs_multiplier_def
  sc_invest_bonus_def sc_insure_bonus_def process_ocbc_tier_def
  boc_salary_bonus_def boc_wealth_bonus_def boc_spend_bonus_def boc_payment_bonus_def
  calculate_dbs_eligible_transactions_def count_dbs_categories_def dbs_base_rate_def
  add_tier_def add_to_total_def add_interest_then_tier_def result_of_def
  bind_err_def next_tier_def rate_of_def Let_def

lemmas sample_defs =
  sample_sc_def sample_uob_def sample_ocbc_def sample_boc_def sample_chocolate_def
  sample_dbs_def sample_banks_def tier_row_def no_requirements_def salaried_requirements_def

lemmas opt_defs =
  optimize_bank_distribution_def salary_pass_def try_combination_def eval_bank_def
  insert_solution_def initial_top_solutions_def empty_solution_def bonus_caps_def
  all_banks_def salary_banks_def dict_item_def py_range_def bank_reqs_def

lemma sc_run:
  "calculate_bank_interest 10000 sample_sc salaried_requirements =
     Inr \<lparr>total_interest = 105, breakdown =
       [\<lparr>amount_in_tier = 10000, tier_rate = 5 / 10000, tier_interest = 5,
         monthly_interest = 5 / 12, description = [Lit ''Base Interest'']\<rparr>,
        \<lparr>amount_in_tier = 10000, tier_rate = 1 / 100, tier_interest = 100,
         monthly_interest = 100 / 12,
         description = [Lit ''Salary Credit Bonus (>= $'', Num 3000, Lit '')'']\<rparr>]\<rparr>"
  by (simp add: calc_defs sample_defs)

text \<open>
  The theorem of claim C2 at SC BonusSaver with \$10,000 and a credited salary: base
  interest 5 plus salary bonus 100.
\<close>

theorem total_interest_is_breakdown_sum_witness:
  "calculate_bank_interest 10000 sample_sc salaried_requirements =
     Inr \<lparr>total_interest = 105, breakdown =
       [\<lparr>amount_in_tier = 10000, tier_rate = 5 / 10000, tier_interest = 5,
         monthly_interest = 5 / 12, description = [Lit ''Base Interest'']\<rparr>,
        \<lparr>amount_in_tier = 10000, tier_rate = 1 / 100, tier_interest = 100,
         monthly_interest = 100 / 12,
         description = [Lit ''Salary Credit Bonus (>= $'', Num 3000, Lit '')'']\<rparr>]\<rparr>
   \<and> (105::real) = sum_list (map tier_interest
       [\<lparr>amount_in_tier = 10000, tier_rate = 5 / 10000, tier_interest = 5,
         monthly_interest = 5 / 12, description = [Lit ''Base Interest'']\<rparr>,
        \<lparr>amount_in_tier = 10000, tier_rate = 1 / 100, tier_interest = 100,
         monthly_interest = 100 / 12,
         description = [Lit ''Salary Credit Bonus (>= $'', Num 3000, Lit '')'']\<rparr>])"
  using total_interest_is_breakdown_sum [OF sc_run] sc_run by simp

section \<open>DBS Multiplier without a credited salary\<close>

text \<open>
  Claim C7. For the product DBS Multiplier, every deposit amount \<open>\<ge> 0\<close> and every
  requirements record with \<open>has_salary\<close> false, \<^verbatim>\<open>calculate_bank_interest\<close> returns a
  result whose \<open>total_interest\<close> is exactly the deposit times 0.0005 and whose breakdown
  has exactly one entry.
\<close>

theorem dbs_no_salary_flat_rate:
  "bank bank_info = ''DBS Multiplier'' \<Longrightarrow> \<not> has_salary bank_requirements \<Longrightarrow>
   0 \<le> deposit_amount \<Longrightarrow>
   \<exists>result. calculate_bank_interest deposit_amount bank_info bank_requirements = Inr result
     \<and> total_interest result = deposit_amount * (5 / 10000)
     \<and> length (breakdown result) = 1"
  by (simp add: calc_defs)

theorem dbs_no_salary_flat_rate_witness:
  "bank sample_dbs = ''DBS Multiplier'' \<and> \<not> has_salary no_requirements \<and> (0::real) \<le> 10000
   \<and> (\<exists>result. calculate_bank_interest 10000 sample_dbs no_requirements = Inr result
     \<and> total_interest result = 10000 * (5 / 10000)
     \<and> length (breakdown result) = 1)"
proof -
  have a: "bank sample_dbs = ''DBS Multiplier''" by (simp add: sample_defs)
  have b: "\<not> has_salary no_requirements" by (simp add: sample_defs)
  have c: "(0::real) \<le> 10000" by simp
  from dbs_no_salary_flat_rate [OF a b c] a b c show ?thesis by blast
qed

section \<open>The optimizer on a zero amount\<close>



section \<open>The search keeps its invariant\<close>

lemma insert_solution_3:
  "insert_solution [a, b, c] new =
     (if sol_total_interest new > sol_total_interest a then [new, a, b]
      else if sol_total_interest new > sol_total_interest b then [a, new, b]
      else if sol_total_interest new > sol_total_interest c then [a, b, new]
      else [a, b, c])"
  by (simp add: insert_solution_def upt_rec numeral_3_eq_3)

lemma length_3: "length xs = 3 \<Longrightarrow> \<exists>a b c. xs = [a, b, c]"
  by (cases xs; simp; cases "tl xs"; simp; cases "tl (tl xs)"; auto)

lemma py_range_eval: "py_range 10000 5000 = [0, 5000]"
  by (simp add: py_range_def upt_rec)

lemma set_dict_set: "set (dict_set d k v) \<subseteq> insert (k, v) (set d)"
  by (induction d k v rule: dict_set.induct) auto

lemma py_range_mem:
  assumes "x \<in> set (py_range stop 5000)"
  shows "0 \<le> x \<and> x < stop \<and> 5000 dvd x"
proof -
  from assms obtain k where k: "k < nat ((stop + 5000 - 1) div 5000)" and x: "x = int k * 5000"
    by (auto simp: py_range_def)
  from k have "int k < (stop + 4999) div 5000" by simp
  then have "int k * 5000 < stop" by linarith
  with x show ?thesis by simp
qed

lemma for_each_inv:
  assumes "for_each body xs s = Inr s'" and "I s"
    and "\<And>x t t'. x \<in> set xs \<Longrightarrow> I t \<Longrightarrow> body x t = Inr t' \<Longrightarrow> I t'"
  shows "I s'"
  using assms
proof (induction xs arbitrary: s)
  case Nil
  then show ?case by simp
next
  case (Cons x xs)
  from Cons.prems(1) obtain t where t: "body x s = Inr t" and r: "for_each body xs t = Inr s'"
    by (auto elim: bind_err_InrE)
  have "I t" using Cons.prems(2,3) t by auto
  then show ?case using Cons.IH[OF r] Cons.prems(3) by auto
qed

lemma eval_is_rerun:
  assumes "for_each (eval_bank banks_data user_requirements sb) d st = Inr st'"
    and "\<forall>(b, a) \<in> set d. 0 < a"
  shows "rerun_from banks_data user_requirements sb (fst st) d = Inr (fst st')"
  using assms
proof (induction d arbitrary: st)
  case Nil
  then show ?case by simp
next
  case (Cons x d)
  obtain b a where x: "x = (b, a)" by (cases x)
  with Cons.prems(2) have pos: "0 < a" by simp
  from Cons.prems(1) obtain t where
    t: "eval_bank banks_data user_requirements sb (b, a) st = Inr t" and
    r: "for_each (eval_bank banks_data user_requirements sb) d t = Inr st'"
    unfolding x by (auto elim: bind_err_InrE)
  from t pos obtain info result where
    info: "banks_data b = Some info" and
    c: "calculate_bank_interest (of_int a) info (bank_reqs user_requirements sb b) = Inr result" and
    ft: "fst t = fst st + total_interest result"
    by (auto simp: eval_bank_def split: option.splits elim!: bind_err_InrE)
  have "rerun_from banks_data user_requirements sb (fst t) d = Inr (fst st')"
    using Cons.IH[OF r] Cons.prems(2) by simp
  then show ?case using info c ft by (simp add: x bind_err_def)
qed

lemma sol_ok_nonneg: "sol_ok T B R s \<Longrightarrow> 0 \<le> sol_total_interest s"
  by (auto simp: sol_ok_def empty_solution_def)

lemma top_ok_insert:
  assumes "top_ok T B R sols"
    and "0 < sol_total_interest new \<Longrightarrow> sol_ok T B R new"
  shows "top_ok T B R (insert_solution sols new)"
proof -
  from assms(1) obtain a b c where abc: "sols = [a, b, c]"
    unfolding top_ok_def by (blast dest: length_3)
  from assms(1) have nn: "0 \<le> sol_total_interest a" "0 \<le> sol_total_interest b"
    "0 \<le> sol_total_interest c"
    unfolding abc top_ok_def by (auto dest: sol_ok_nonneg)
  show ?thesis using assms nn unfolding abc top_ok_def sorted_desc_def insert_solution_3
    by auto
qed

lemma top_ok_try_combination:
  assumes "try_combination T B R d sb sols = Inr sols'" and "top_ok T B R sols" and "dist_ok d"
  shows "top_ok T B R sols'"
proof (cases "\<bar>sum_list (map snd d) - T\<bar> > 5000")
  case True
  with assms show ?thesis by (simp add: try_combination_def)
next
  case False
  with assms(1) obtain st where
    st: "for_each (eval_bank B R sb) d (0, []) = Inr st" and
    r: "sols' = insert_solution sols \<lparr>distribution = d, sol_total_interest = fst st,
                        sol_breakdown = snd st, sol_salary_bank = sb\<rparr>"
    by (auto simp: try_combination_def elim!: bind_err_InrE)
  have pos: "\<forall>(b, a) \<in> set d. 0 < a" using assms(3) by (auto simp: dist_ok_def)
  have "rerun_from B R sb 0 d = Inr (fst st)" using eval_is_rerun[OF st pos] by simp
  then show ?thesis unfolding r using False assms(3)
    by (intro top_ok_insert[OF assms(2)]) (simp add: sol_ok_def rerun_total_def)
qed

lemma dist_ok_empty: "dist_ok []"
  by (simp add: dist_ok_def)

lemma dist_ok_dict_set:
  assumes "dist_ok d" and "0 < a" and "5000 dvd a" and "map_of bonus_caps b = Some cap"
    and "a \<le> cap"
  shows "dist_ok (dict_set d b a)"
  using assms set_dict_set[of d b a] unfolding dist_ok_def by fastforce

lemma dict_item_Inr: "dict_item d k = Inr v \<Longrightarrow> map_of d k = Some v"
  by (simp add: dict_item_def split: option.splits)

lemma top_ok_try_all_combinations:
  assumes "try_all_combinations T B R remaining banks cur sb sols = Inr sols'"
    and "top_ok T B R sols" and "dist_ok cur"
  shows "top_ok T B R sols'"
  using assms
proof (induction banks arbitrary: remaining cur sols sols')
  case Nil
  then show ?case by (auto split: if_splits dest: top_ok_try_combination)
next
  case (Cons b bs)
  from Cons.prems(1) obtain cap where cap: "dict_item bonus_caps b = Inr cap" and
    loop: "for_each (\<lambda>amount top.
           if amount \<le> min remaining cap then
             (let new_distribution =
                    (if amount > 0 then dict_set cur b amount else cur)
              in try_all_combinations T B R (remaining - amount) bs new_distribution sb top)
           else Inr top)
         (py_range (min remaining cap + 5000) 5000) sols = Inr sols'"
    by (auto simp: Let_def elim!: bind_err_InrE)
  show ?case
  proof (rule for_each_inv[OF loop, where I = "top_ok T B R"])
    show "top_ok T B R sols" by (rule Cons.prems(2))
  next
    fix x t t'
    assume x: "x \<in> set (py_range (min remaining cap + 5000) 5000)" and t: "top_ok T B R t"
      and body: "(if x \<le> min remaining cap then
             (let new_distribution = (if x > 0 then dict_set cur b x else cur)
              in try_all_combinations T B R (remaining - x) bs new_distribution sb t)
           else Inr t) = Inr t'"
    show "top_ok T B R t'"
    proof (cases "x \<le> min remaining cap")
      case False
      with body t show ?thesis by (auto split: if_splits)
    next
      case True
      have d: "dist_ok (if x > 0 then dict_set cur b x else cur)"
        using Cons.prems(3) True py_range_mem[OF x] dict_item_Inr[OF cap]
        by (auto intro: dist_ok_dict_set)
      from body True have
        "try_all_combinations T B R (remaining - x) bs (if x > 0 then dict_set cur b x else cur) sb t
           = Inr t'"
        by (simp only: if_True Let_def)
      from Cons.IH[OF this t d] show ?thesis .
    qed
  qed
qed

lemma salary_bank_cap:
  "salary_bank \<in> set salary_banks \<Longrightarrow> dict_item bonus_caps salary_bank = Inr cap \<Longrightarrow> cap = 100000"
  by (auto simp: salary_banks_def dict_item_def bonus_caps_def)

lemma top_ok_salary_pass:
  assumes "salary_pass T B R salary_bank sols = Inr sols'"
    and "top_ok T B R sols" and "salary_bank \<in> set salary_banks"
  shows "top_ok T B R sols'"
proof -
  from assms(1) obtain cap where cap: "dict_item bonus_caps salary_bank = Inr cap" and
    loop: "for_each (\<lambda>amount top.
            if amount \<le> T then
              (let initial_distribution = (if amount > 0 then [(salary_bank, amount)] else [])
               in try_all_combinations T B R (T - amount)
                    (filter (\<lambda>bank. bank \<noteq> salary_bank) all_banks) initial_distribution
                    (Some salary_bank) top)
            else Inr top)
          (py_range (min (T + 5000) (cap + 5000)) 5000) sols = Inr sols'"
    by (auto simp: salary_pass_def Let_def elim!: bind_err_InrE)
  have c: "cap = 100000" using salary_bank_cap[OF assms(3) cap] .
  show ?thesis
  proof (rule for_each_inv[OF loop, where I = "top_ok T B R"])
    show "top_ok T B R sols" by (rule assms(2))
  next
    fix x t t'
    assume x: "x \<in> set (py_range (min (T + 5000) (cap + 5000)) 5000)" and t: "top_ok T B R t"
      and body: "(if x \<le> T then
              (let initial_distribution = (if x > 0 then [(salary_bank, x)] else [])
               in try_all_combinations T B R (T - x)
                    (filter (\<lambda>bank. bank \<noteq> salary_bank) all_banks) initial_distribution
                    (Some salary_bank) t)
            else Inr t) = Inr t'"
    show "top_ok T B R t'"
    proof (cases "x \<le> T")
      case False
      with body t show ?thesis by (auto split: if_splits)
    next
      case True
      from py_range_mem[OF x] c have xr: "0 \<le> x" "x < 105000" "5000 dvd x" by auto
      from xr(3) obtain k where k: "x = 5000 * k" by (auto elim: dvdE)
      with xr(2) have "k < 21" by simp
      with k have "x \<le> 100000" by simp
      then have d: "dist_ok (if x > 0 then [(salary_bank, x)] else [])"
        using xr dict_item_Inr[OF cap] c by (auto simp: dist_ok_def)
      from body True have
        "try_all_combinations T B R (T - x) (filter (\<lambda>bank. bank \<noteq> salary_bank) all_banks)
           (if x > 0 then [(salary_bank, x)] else []) (Some salary_bank) t = Inr t'"
        by (simp only: if_True Let_def)
      from top_ok_try_all_combinations[OF this t d] show ?thesis .
    qed
  qed
qed

lemma top_ok_initial: "top_ok T B R initial_top_solutions"
  by (simp add: top_ok_def initial_top_solutions_def sorted_desc_def sol_ok_def)

lemma top_ok_optimize:
  assumes "optimize_bank_distribution T B R = Inr sols"
  shows "top_ok T B R sols"
proof -
  from assms obtain mid where
    first: "(if has_salary R then for_each (salary_pass T B R) salary_banks initial_top_solutions
             else Inr initial_top_solutions) = Inr mid" and
    last: "try_all_combinations T B R T all_banks [] None mid = Inr sols"
    by (auto simp: optimize_bank_distribution_def elim!: bind_err_InrE)
  have "top_ok T B R mid"
  proof (cases "has_salary R")
    case False
    with first show ?thesis using top_ok_initial by auto
  next
    case True
    with first have f: "for_each (salary_pass T B R) salary_banks initial_top_solutions = Inr mid"
      by simp
    show ?thesis
      by (rule for_each_inv[OF f, where I = "top_ok T B R"])
         (auto intro: top_ok_initial top_ok_salary_pass)
  qed
  from top_ok_try_all_combinations[OF last this dist_ok_empty] show ?thesis .
qed

lemma sample_run:
  "optimize_bank_distribution 5000 sample_banks no_requirements = Inr sample_result"
  by (simp add: opt_defs calc_defs sample_defs sample_result_def insert_solution_3 upt_rec)

lemma sol_ok_cases:
  assumes "optimize_bank_distribution T B R = Inr sols" and "s \<in> set sols"
  shows "sol_ok T B R s"
  using top_ok_optimize[OF assms(1)] assms(2) by (simp add: top_ok_def)

section \<open>Recorded allocations\<close>

text \<open>
  Claim C10. In every solution \<^verbatim>\<open>optimize_bank_distribution\<close> returns, every entry of the
  distribution has a strictly positive amount, so a zero allocation is never recorded,
  and the amount is a positive multiple of the \$5,000 increment.
\<close>

theorem distribution_entries_positive_multiples:
  "optimize_bank_distribution total_amount banks_data user_requirements = Inr sols \<Longrightarrow>
   s \<in> set sols \<Longrightarrow> (b, a) \<in> set (distribution s) \<Longrightarrow>
   0 < a \<and> (\<exists>k. 0 < k \<and> a = 5000 * k)"
proof -
  assume run: "optimize_bank_distribution total_amount banks_data user_requirements = Inr sols"
    and s: "s \<in> set sols" and ba: "(b, a) \<in> set (distribution s)"
  from sol_ok_cases[OF run s] ba have "dist_ok (distribution s)"
    by (auto simp: sol_ok_def empty_solution_def)
  with ba have pos: "0 < a" and dv: "5000 dvd a" by (auto simp: dist_ok_def)
  from dv obtain k where k: "a = 5000 * k" by (auto elim: dvdE)
  with pos have "0 < k" by simp
  with pos k show ?thesis by blast
qed

theorem distribution_entries_positive_multiples_witness:
  "optimize_bank_distribution 5000 sample_banks no_requirements = Inr sample_result
   \<and> sample_result ! 0 \<in> set sample_result
   \<and> (''Chocolate'', 5000) \<in> set (distribution (sample_result ! 0))
   \<and> (0::int) < 5000 \<and> (\<exists>k. 0 < k \<and> (5000::int) = 5000 * k)"
proof -
  have m: "sample_result ! 0 \<in> set sample_result" by (simp add: sample_result_def)
  have e: "(''Chocolate'', 5000) \<in> set (distribution (sample_result ! 0))"
    by (simp add: sample_result_def)
  from distribution_entries_positive_multiples [OF sample_run m e] sample_run m e
  show ?thesis by blast
qed

section \<open>The round trip\<close>

text \<open>
  Claim C6. For every solution \<^verbatim>\<open>optimize_bank_distribution\<close> returns, running
  \<^verbatim>\<open>calculate_bank_interest\<close> again on each (product, amount) pair of its distribution,
  with the requirements copy rebuilt from its recorded salary assignment, and adding up
  the results succeeds and gives exactly the recorded \<open>total_interest\<close>.
\<close>

theorem round_trip_reproduces_total:
  "optimize_bank_distribution total_amount banks_data user_requirements = Inr sols \<Longrightarrow>
   s \<in> set sols \<Longrightarrow>
   rerun_total banks_data user_requirements s = Inr (sol_total_interest s)"
proof -
  assume run: "optimize_bank_distribution total_amount banks_data user_requirements = Inr sols"
    and s: "s \<in> set sols"
  from sol_ok_cases[OF run s] show ?thesis
    by (auto simp: sol_ok_def empty_solution_def rerun_total_def)
qed

theorem round_trip_reproduces_total_witness:
  "optimize_bank_distribution 5000 sample_banks no_requirements = Inr sample_result
   \<and> sample_result ! 1 \<in> set sample_result
   \<and> rerun_total sample_banks no_requirements (sample_result ! 1) = Inr (25 / 2)"
proof -
  have m: "sample_result ! 1 \<in> set sample_result" by (simp add: sample_result_def)
  have v: "sol_total_interest (sample_result ! 1) = 25 / 2" by (simp add: sample_result_def)
  from round_trip_reproduces_total [OF sample_run m] sample_run m v
  show ?thesis by simp
qed

section \<open>Tolerance and caps\<close>

text \<open>
  When the total exceeds every cap together by an increment the search reaches no leaf,
  so nothing is inserted and the three placeholders come back.
\<close>

lemma for_each_unchanged:
  "(\<And>x. x \<in> set xs \<Longrightarrow> body x s = Inr s) \<Longrightarrow> for_each body xs s = Inr s"
  by (induction xs) (simp_all add: bind_err_def)

lemma try_all_no_leaf:
  assumes "set banks \<subseteq> set all_banks"
    and "5000 + (\<Sum>b\<leftarrow>banks. the (map_of bonus_caps b)) \<le> remaining"
  shows "try_all_combinations T B R remaining banks cur sb sols = Inr sols"
  using assms
proof (induction banks arbitrary: remaining cur)
  case Nil
  then show ?case by simp
next
  case (Cons b bs)
  from Cons.prems(1) have "b \<in> set all_banks" by simp
  then obtain cap where cap: "map_of bonus_caps b = Some cap" and c0: "0 \<le> cap"
    by (auto simp: all_banks_def bonus_caps_def)
  have item: "dict_item bonus_caps b = Inr cap" using cap by (simp add: dict_item_def)
  have "for_each (\<lambda>amount top.
           if amount \<le> min remaining cap then
             (let new_distribution =
                    (if amount > 0 then dict_set cur b amount else cur)
              in try_all_combinations T B R (remaining - amount) bs new_distribution sb top)
           else Inr top)
         (py_range (min remaining cap + 5000) 5000) sols = Inr sols"
  proof (rule for_each_unchanged)
    fix x
    assume "x \<in> set (py_range (min remaining cap + 5000) 5000)"
    show "(if x \<le> min remaining cap then
             (let new_distribution = (if x > 0 then dict_set cur b x else cur)
              in try_all_combinations T B R (remaining - x) bs new_distribution sb sols)
           else Inr sols) = Inr sols"
    proof (cases "x \<le> min remaining cap")
      case False
      then show ?thesis by (simp only: if_False)
    next
      case True
      have "5000 + (\<Sum>b\<leftarrow>bs. the (map_of bonus_caps b)) \<le> remaining - x"
        using Cons.prems(2) True cap by simp
      from Cons.IH[OF _ this] Cons.prems(1) True show ?thesis
        by (simp only: if_True Let_def) simp
    qed
  qed
  then show ?case using item by (simp add: bind_err_def)
qed

lemma optimize_beyond_all_caps:
  assumes "505000 \<le> T"
  shows "optimize_bank_distribution T B R = Inr initial_top_solutions"
proof -
  have pass: "salary_pass T B R sb sols = Inr sols" if sb: "sb \<in> set salary_banks" for sb sols
  proof -
    have item: "dict_item bonus_caps sb = Inr 100000"
      using sb by (auto simp: salary_banks_def dict_item_def bonus_caps_def)
    have "for_each (\<lambda>amount top.
            if amount \<le> T then
              (let initial_distribution = (if amount > 0 then [(sb, amount)] else [])
               in try_all_combinations T B R (T - amount)
                    (filter (\<lambda>bank. bank \<noteq> sb) all_banks) initial_distribution
                    (Some sb) top)
            else Inr top)
          (py_range (min (T + 5000) (100000 + 5000)) 5000) sols = Inr sols"
    proof (rule for_each_unchanged)
      fix x
      assume x: "x \<in> set (py_range (min (T + 5000) (100000 + 5000)) 5000)"
      from py_range_mem[OF x] have xr: "x < 105000" "5000 dvd x" by simp_all
      from xr(2) obtain k where k: "x = 5000 * k" by (auto elim: dvdE)
      with xr(1) have "k < 21" by simp
      with k have "x \<le> 100000" by simp
      moreover have "(\<Sum>b\<leftarrow>filter (\<lambda>bank. bank \<noteq> sb) all_banks. the (map_of bonus_caps b)) = 400000"
        using sb by (auto simp: salary_banks_def all_banks_def bonus_caps_def)
      ultimately have "5000 + (\<Sum>b\<leftarrow>filter (\<lambda>bank. bank \<noteq> sb) all_banks. the (map_of bonus_caps b))
          \<le> T - x" using assms by simp
      from try_all_no_leaf[OF _ this]
      show "(if x \<le> T then
              (let initial_distribution = (if x > 0 then [(sb, x)] else [])
               in try_all_combinations T B R (T - x)
                    (filter (\<lambda>bank. bank \<noteq> sb) all_banks) initial_distribution
                    (Some sb) sols)
            else Inr sols) = Inr sols"
        by (simp add: Let_def)
    qed
    with item show ?thesis by (simp add: salary_pass_def bind_err_def Let_def)
  qed
  have first: "for_each (salary_pass T B R) salary_banks initial_top_solutions
                 = Inr initial_top_solutions"
    by (rule for_each_unchanged) (rule pass)
  have "(\<Sum>b\<leftarrow>all_banks. the (map_of bonus_caps b)) = 500000"
    by (simp add: all_banks_def bonus_caps_def)
  with assms have "5000 + (\<Sum>b\<leftarrow>all_banks. the (map_of bonus_caps b)) \<le> T" by simp
  from try_all_no_leaf[OF _ this]
  have last: "try_all_combinations T B R T all_banks [] None initial_top_solutions
                = Inr initial_top_solutions" by simp
  show ?thesis using first last by (simp add: optimize_bank_distribution_def bind_err_def)
qed

text \<open>
  Claim C3 as stated fails: for a total of \$505,000 the optimizer returns the three
  placeholders, whose empty distribution sums to 0, further than one increment from the
  total.
\<close>

theorem placeholder_outside_tolerance:
  "optimize_bank_distribution 505000 sample_banks no_requirements
     = Inr [empty_solution, empty_solution, empty_solution]
   \<and> \<not> \<bar>sum_list (map snd (distribution empty_solution)) - 505000\<bar> \<le> (5000::int)"
  using optimize_beyond_all_caps[of 505000 sample_banks no_requirements]
  by (simp add: initial_top_solutions_def empty_solution_def)

text \<open>
  Claim C3, amended. For every solution \<^verbatim>\<open>optimize_bank_distribution\<close> returns: if its
  \<open>total_interest\<close> is not zero (it was inserted by the search) the sum of its allocated
  amounts is within one \$5,000 increment of the target total; if its \<open>total_interest\<close> is
  zero it is a placeholder with an empty distribution; and in either case each allocated
  amount is at most the product's bonus cap.
\<close>

theorem inserted_solutions_within_tolerance_and_caps:
  "optimize_bank_distribution total_amount banks_data user_requirements = Inr sols \<Longrightarrow>
   s \<in> set sols \<Longrightarrow>
   (sol_total_interest s \<noteq> 0 \<longrightarrow>
      \<bar>sum_list (map snd (distribution s)) - total_amount\<bar> \<le> 5000)
   \<and> (sol_total_interest s = 0 \<longrightarrow> distribution s = [])
   \<and> (\<forall>(b, a) \<in> set (distribution s). \<exists>cap. map_of bonus_caps b = Some cap \<and> a \<le> cap)"
proof -
  assume run: "optimize_bank_distribution total_amount banks_data user_requirements = Inr sols"
    and s: "s \<in> set sols"
  from sol_ok_cases[OF run s] show ?thesis
    by (auto simp: sol_ok_def empty_solution_def dist_ok_def)
qed

theorem inserted_solutions_within_tolerance_and_caps_witness:
  "optimize_bank_distribution 5000 sample_banks no_requirements = Inr sample_result
   \<and> sample_result ! 0 \<in> set sample_result
   \<and> sol_total_interest (sample_result ! 0) \<noteq> 0
   \<and> \<bar>sum_list (map snd (distribution (sample_result ! 0))) - 5000\<bar> \<le> 5000
   \<and> (\<exists>cap. map_of bonus_caps ''Chocolate'' = Some cap \<and> (5000::int) \<le> cap)"
proof -
  have m: "sample_result ! 0 \<in> set sample_result" by (simp add: sample_result_def)
  have v: "sol_total_interest (sample_result ! 0) \<noteq> 0" by (simp add: sample_result_def)
  have e: "(''Chocolate'', 5000) \<in> set (distribution (sample_result ! 0))"
    by (simp add: sample_result_def)
  from inserted_solutions_within_tolerance_and_caps [OF sample_run m] sample_run m v e
  show ?thesis by blast
qed

section \<open>The top-3 list\<close>

lemma sample_result_sorted: "length sample_result = 3 \<and> sorted_desc sample_result"
  by (simp add: sample_result_def sorted_desc_def)

text \<open>
  Claim C5. The list starts with three entries in descending order of \<open>total_interest\<close>;
  every insertion into a list of three sorted entries gives three sorted entries again,
  and leaves every kept solution whose interest is at least the candidate's at its own
  position, so a candidate that ties with a kept solution never displaces it; hence the
  list is sorted at every point of the search, and the list returned is sorted.
\<close>

theorem top3_sorted_first_found_wins:
  "length initial_top_solutions = 3 \<and> sorted_desc initial_top_solutions \<and>
   (length sols = 3 \<and> sorted_desc sols \<longrightarrow>
      length (insert_solution sols new) = 3 \<and> sorted_desc (insert_solution sols new) \<and>
      (\<forall>i<3. sol_total_interest new \<le> sol_total_interest (sols ! i) \<longrightarrow>
               insert_solution sols new ! i = sols ! i)) \<and>
   (optimize_bank_distribution total_amount banks_data user_requirements = Inr result \<longrightarrow>
      length result = 3 \<and> sorted_desc result)"
proof (intro conjI impI)
  show "length initial_top_solutions = 3" by (simp add: initial_top_solutions_def)
  show "sorted_desc initial_top_solutions"
    by (simp add: initial_top_solutions_def sorted_desc_def)
next
  assume h: "length sols = 3 \<and> sorted_desc sols"
  then obtain a b c where abc: "sols = [a, b, c]" by (blast dest: length_3)
  show "length (insert_solution sols new) = 3" unfolding abc insert_solution_3 by simp
  show "sorted_desc (insert_solution sols new)"
    using h unfolding abc insert_solution_3 sorted_desc_def by auto
  show "\<forall>i<3. sol_total_interest new \<le> sol_total_interest (sols ! i) \<longrightarrow>
               insert_solution sols new ! i = sols ! i"
    using h unfolding abc insert_solution_3 sorted_desc_def
    by (auto simp: numeral_3_eq_3 less_Suc_eq)
next
  assume "optimize_bank_distribution total_amount banks_data user_requirements = Inr result"
  from top_ok_optimize[OF this] show "length result = 3" "sorted_desc result"
    by (simp_all add: top_ok_def)
qed

theorem top3_sorted_first_found_wins_witness:
  "length sample_result = 3 \<and> sorted_desc sample_result
   \<and> sol_total_interest tie_candidate = sol_total_interest (sample_result ! 1)
   \<and> insert_solution sample_result tie_candidate ! 1 = sample_result ! 1
   \<and> sorted_desc (insert_solution sample_result tie_candidate)
   \<and> optimize_bank_distribution 5000 sample_banks no_requirements = Inr sample_result"
proof -
  have t: "sol_total_interest tie_candidate = sol_total_interest (sample_result ! 1)"
    by (simp add: tie_candidate_def sample_result_def)
  from top3_sorted_first_found_wins
         [of sample_result tie_candidate 5000 sample_banks no_requirements sample_result]
       sample_result_sorted t sample_run
  show ?thesis by simp
qed

section \<open>The salary assignment of a branch\<close>

text \<open>
  Claim C4 as stated fails: in the branch whose salary-assignee is SC BonusSaver, UOB One
  is not the assignee and is still evaluated with \<open>has_salary\<close> true. On the sample tables
  \$5,000 in UOB One then earns 150 on the salary ladder, where the spend-only ladder
  would give 50.
\<close>

theorem uob_one_evaluated_with_salary:
  "Some ''UOB One'' \<noteq> Some ''SC BonusSaver''
   \<and> has_salary (bank_reqs salaried_requirements (Some ''SC BonusSaver'') ''UOB One'')
   \<and> (case eval_bank sample_banks salaried_requirements (Some ''SC BonusSaver'')
             (''UOB One'', 5000) (0, []) of
         Inl e \<Rightarrow> False | Inr st \<Rightarrow> fst st = 150)
   \<and> (case calculate_bank_interest 5000 sample_uob
             (salaried_requirements\<lparr>has_salary := False\<rparr>) of
         Inl e \<Rightarrow> False | Inr result \<Rightarrow> total_interest result = 50)"
  by (simp add: bank_reqs_def eval_bank_def calc_defs sample_defs)

lemma for_each_append:
  "for_each body (xs @ ys) s = bind_err (for_each body xs s) (for_each body ys)"
proof (induction xs arbitrary: s)
  case Nil
  show ?case by (simp add: bind_err_simps)
next
  case (Cons x xs)
  show ?case
  proof (cases "body x s")
    case (Inl e)
    then show ?thesis by (simp add: bind_err_simps)
  next
    case (Inr t)
    then show ?thesis using Cons.IH[of t] by (simp add: bind_err_simps)
  qed
qed

lemma for_each_concat_map:
  "for_each body (concat (map g xs)) s = for_each (\<lambda>x t. for_each body (g x) t) xs s"
proof (induction xs arbitrary: s)
  case Nil
  show ?case by simp
next
  case (Cons x xs)
  show ?case
  proof (cases "for_each body (g x) s")
    case (Inl e)
    then show ?thesis by (simp add: for_each_append bind_err_simps)
  next
    case (Inr t)
    then show ?thesis using Cons.IH[of t] by (simp add: for_each_append bind_err_simps)
  qed
qed

lemma for_each_cong_set:
  "(\<And>x t. x \<in> set xs \<Longrightarrow> f x t = g x t) \<Longrightarrow> for_each f xs s = for_each g xs s"
proof (induction xs arbitrary: s)
  case Nil
  show ?case by simp
next
  case (Cons x xs)
  have h: "f x s = g x s" using Cons.prems by simp
  have t: "\<And>t. for_each f xs t = for_each g xs t" using Cons.IH Cons.prems by simp
  show ?case
  proof (cases "g x s")
    case (Inl e)
    with h show ?thesis by (simp add: bind_err_simps)
  next
    case (Inr u)
    with h t show ?thesis by (simp add: bind_err_simps)
  qed
qed

lemma try_all_combinations_leaves:
  assumes "set banks \<subseteq> set all_banks"
  shows "try_all_combinations T B R remaining banks cur sb sols
           = for_each (\<lambda>d t. try_combination T B R d sb t) (leaves remaining banks cur) sols"
  using assms
proof (induction banks arbitrary: remaining cur sols)
  case Nil
  show ?case by (simp add: bind_err_def split: sum.splits)
next
  case (Cons b bs)
  from Cons.prems have "b \<in> set all_banks" by simp
  then obtain cap where cap: "map_of bonus_caps b = Some cap"
    by (auto simp: all_banks_def bonus_caps_def)
  have item: "dict_item bonus_caps b = Inr cap" using cap by (simp add: dict_item_def)
  from Cons.prems have sub: "set bs \<subseteq> set all_banks" by simp
  have lhs: "try_all_combinations T B R remaining (b # bs) cur sb sols =
      for_each (\<lambda>amount top.
           if amount \<le> min remaining cap then
             try_all_combinations T B R (remaining - amount) bs
               (if amount > 0 then dict_set cur b amount else cur) sb top
           else Inr top)
         (py_range (min remaining cap + 5000) 5000) sols"
    using item by (simp add: bind_err_simps Let_def cong: if_cong)
  have rhs: "leaves remaining (b # bs) cur =
      concat (map (\<lambda>amount.
               if amount \<le> min remaining cap then
                 leaves (remaining - amount) bs (if amount > 0 then dict_set cur b amount else cur)
               else [])
             (py_range (min remaining cap + 5000) 5000))"
    using cap by (simp add: Let_def)
  show ?case
    unfolding lhs rhs for_each_concat_map
    by (rule for_each_cong_set) (simp add: Cons.IH[OF sub])
qed

lemma salary_pass_leaves:
  assumes "salary_bank \<in> set salary_banks"
  shows "salary_pass T B R salary_bank sols
           = for_each (\<lambda>d t. try_combination T B R d (Some salary_bank) t)
               (salary_leaves T salary_bank) sols"
proof -
  from assms obtain cap where cap: "map_of bonus_caps salary_bank = Some cap"
    by (auto simp: salary_banks_def bonus_caps_def)
  have item: "dict_item bonus_caps salary_bank = Inr cap" using cap by (simp add: dict_item_def)
  have sub: "set (filter (\<lambda>b. b \<noteq> salary_bank) all_banks) \<subseteq> set all_banks" by auto
  have lhs: "salary_pass T B R salary_bank sols =
      for_each (\<lambda>amount top.
            if amount \<le> T then
              try_all_combinations T B R (T - amount)
                (filter (\<lambda>b. b \<noteq> salary_bank) all_banks)
                (if amount > 0 then [(salary_bank, amount)] else []) (Some salary_bank) top
            else Inr top)
          (py_range (min (T + 5000) (cap + 5000)) 5000) sols"
    using item by (simp add: salary_pass_def bind_err_simps Let_def cong: if_cong)
  have rhs: "salary_leaves T salary_bank =
      concat (map (\<lambda>amount.
              if amount \<le> T then
                leaves (T - amount) (filter (\<lambda>b. b \<noteq> salary_bank) all_banks)
                  (if amount > 0 then [(salary_bank, amount)] else [])
              else [])
            (py_range (min (T + 5000) (cap + 5000)) 5000))"
    using cap by (simp add: salary_leaves_def)
  show ?thesis
    unfolding lhs rhs for_each_concat_map
    by (rule for_each_cong_set) (simp add: try_all_combinations_leaves[OF sub])
qed

lemma bank_reqs_amended: "bank_reqs R sb b = amended_reqs R sb b"
  by (simp add: bank_reqs_def amended_reqs_def eq_commute[of "Some b" sb])

lemma eval_bank_amended:
  "for_each (eval_bank B R sb) d st =
   for_each (\<lambda>item st. case item of (b, a) \<Rightarrow>
       if a > 0 then
         (case B b of
            None \<Rightarrow> Inl KeyError
          | Some info \<Rightarrow>
              bind_err (calculate_bank_interest (of_int a) info (amended_reqs R sb b))
                (\<lambda>result. Inr (fst st + total_interest result,
                               dict_set (snd st) b (breakdown result))))
       else Inr st) d st"
proof -
  have "eval_bank B R sb =
     (\<lambda>item st. case item of (b, a) \<Rightarrow>
       if a > 0 then
         (case B b of
            None \<Rightarrow> Inl KeyError
          | Some info \<Rightarrow>
              bind_err (calculate_bank_interest (of_int a) info (amended_reqs R sb b))
                (\<lambda>result. Inr (fst st + total_interest result,
                               dict_set (snd st) b (breakdown result))))
       else Inr st)"
    apply (intro ext)
    unfolding eval_bank_def bank_reqs_amended
    by (rule refl)
  then show ?thesis by (rule arg_cong)
qed

text \<open>
  Claim C4, amended. Every search branch of \<^verbatim>\<open>optimize_bank_distribution\<close> is a run of
  \<^verbatim>\<open>try_combination\<close> over the branch's candidates with the branch's salary-assignee: the
  pass for a salary product passes that product, the last pass passes none. In such a
  run each product with a nonzero allocation is evaluated by \<^verbatim>\<open>calculate_bank_interest\<close>
  on the copy \<open>amended_reqs\<close>: a product other than UOB One has \<open>has_salary\<close> true exactly
  when it is the branch's assignee and the user has a salary credit, so one that is not
  the assignee is evaluated with \<open>has_salary\<close> false; UOB One is always evaluated with the
  user's own \<open>has_salary\<close> and \<open>salary_amount\<close>, whichever product is the assignee.
\<close>

theorem every_branch_evaluates_amended_copy:
  "try_combination total_amount banks_data user_requirements amounts_dict sb sols =
     (if \<bar>sum_list (map snd amounts_dict) - total_amount\<bar> > 5000 then Inr sols
      else
        bind_err
          (for_each (\<lambda>item st. case item of (b, a) \<Rightarrow>
               if a > 0 then
                 (case banks_data b of
                    None \<Rightarrow> Inl KeyError
                  | Some info \<Rightarrow>
                      bind_err (calculate_bank_interest (of_int a) info
                                  (amended_reqs user_requirements sb b))
                        (\<lambda>result. Inr (fst st + total_interest result,
                                       dict_set (snd st) b (breakdown result))))
               else Inr st) amounts_dict (0, []))
          (\<lambda>st. Inr (insert_solution sols
                       \<lparr>distribution = amounts_dict, sol_total_interest = fst st,
                        sol_breakdown = snd st, sol_salary_bank = sb\<rparr>)))
   \<and> (salary_bank \<in> set salary_banks \<longrightarrow>
        salary_pass total_amount banks_data user_requirements salary_bank sols =
          for_each (\<lambda>d t. try_combination total_amount banks_data user_requirements d
                             (Some salary_bank) t)
            (salary_leaves total_amount salary_bank) sols)
   \<and> optimize_bank_distribution total_amount banks_data user_requirements =
        bind_err
          (if has_salary user_requirements then
             for_each (salary_pass total_amount banks_data user_requirements) salary_banks
               initial_top_solutions
           else Inr initial_top_solutions)
          (for_each (\<lambda>d t. try_combination total_amount banks_data user_requirements d None t)
             (leaves total_amount all_banks []))
   \<and> (bank_name \<noteq> ''UOB One'' \<longrightarrow>
        has_salary (amended_reqs user_requirements sb bank_name)
          = (sb = Some bank_name \<and> has_salary user_requirements))
   \<and> (bank_name \<noteq> ''UOB One'' \<and> sb \<noteq> Some bank_name \<longrightarrow>
        \<not> has_salary (amended_reqs user_requirements sb bank_name))
   \<and> has_salary (amended_reqs user_requirements sb ''UOB One'') = has_salary user_requirements
   \<and> salary_amount (amended_reqs user_requirements sb ''UOB One'')
        = salary_amount user_requirements"
proof (intro conjI impI)
  show "try_combination total_amount banks_data user_requirements amounts_dict sb sols =
     (if \<bar>sum_list (map snd amounts_dict) - total_amount\<bar> > 5000 then Inr sols
      else
        bind_err
          (for_each (\<lambda>item st. case item of (b, a) \<Rightarrow>
               if a > 0 then
                 (case banks_data b of
                    None \<Rightarrow> Inl KeyError
                  | Some info \<Rightarrow>
                      bind_err (calculate_bank_interest (of_int a) info
                                  (amended_reqs user_requirements sb b))
                        (\<lambda>result. Inr (fst st + total_interest result,
                                       dict_set (snd st) b (breakdown result))))
               else Inr st) amounts_dict (0, []))
          (\<lambda>st. Inr (insert_solution sols
                       \<lparr>distribution = amounts_dict, sol_total_interest = fst st,
                        sol_breakdown = snd st, sol_salary_bank = sb\<rparr>)))"
    unfolding try_combination_def eval_bank_amended ..
next
  assume "salary_bank \<in> set salary_banks"
  then show "salary_pass total_amount banks_data user_requirements salary_bank sols =
          for_each (\<lambda>d t. try_combination total_amount banks_data user_requirements d
                             (Some salary_bank) t)
            (salary_leaves total_amount salary_bank) sols"
    by (rule salary_pass_leaves)
next
  have "(\<lambda>top. try_all_combinations total_amount banks_data user_requirements total_amount
                all_banks [] None top)
        = for_each (\<lambda>d t. try_combination total_amount banks_data user_requirements d None t)
             (leaves total_amount all_banks [])"
    by (rule ext) (rule try_all_combinations_leaves, simp)
  then show "optimize_bank_distribution total_amount banks_data user_requirements =
        bind_err
          (if has_salary user_requirements then
             for_each (salary_pass total_amount banks_data user_requirements) salary_banks
               initial_top_solutions
           else Inr initial_top_solutions)
          (for_each (\<lambda>d t. try_combination total_amount banks_data user_requirements d None t)
             (leaves total_amount all_banks []))"
    unfolding optimize_bank_distribution_def by simp
next
  assume "bank_name \<noteq> ''UOB One''"
  then show "has_salary (amended_reqs user_requirements sb bank_name)
          = (sb = Some bank_name \<and> has_salary user_requirements)"
    by (simp add: amended_reqs_def)
next
  assume "bank_name \<noteq> ''UOB One'' \<and> sb \<noteq> Some bank_name"
  then show "\<not> has_salary (amended_reqs user_requirements sb bank_name)"
    by (simp add: amended_reqs_def)
next
  show "has_salary (amended_reqs user_requirements sb ''UOB One'') = has_salary user_requirements"
    by (simp add: amended_reqs_def)
  show "salary_amount (amended_reqs user_requirements sb ''UOB One'')
        = salary_amount user_requirements"
    by (simp add: amended_reqs_def)
qed

theorem every_branch_evaluates_amended_copy_witness:
  "''OCBC 360'' \<in> set salary_banks
   \<and> salary_pass 5000 sample_banks salaried_requirements ''OCBC 360'' initial_top_solutions =
        for_each (\<lambda>d t. try_combination 5000 sample_banks salaried_requirements d
                           (Some ''OCBC 360'') t)
          (salary_leaves 5000 ''OCBC 360'') initial_top_solutions
   \<and> ''SC BonusSaver'' \<noteq> ''UOB One'' \<and> Some ''OCBC 360'' \<noteq> Some ''SC BonusSaver''
   \<and> \<not> has_salary (amended_reqs salaried_requirements (Some ''OCBC 360'') ''SC BonusSaver'')
   \<and> has_salary (amended_reqs salaried_requirements (Some ''OCBC 360'') ''UOB One'')
   \<and> salary_amount (amended_reqs salaried_requirements (Some ''OCBC 360'') ''UOB One'') = 5000"
proof -
  note t = every_branch_evaluates_amended_copy
             [of 5000 sample_banks salaried_requirements "[(''SC BonusSaver'', 5000)]"
                 "Some ''OCBC 360''" initial_top_solutions "''OCBC 360''" "''SC BonusSaver''"]
  have m: "''OCBC 360'' \<in> set salary_banks" by (simp add: salary_banks_def)
  have n: "''SC BonusSaver'' \<noteq> ''UOB One'' \<and> Some ''OCBC 360'' \<noteq> Some ''SC BonusSaver''" by simp
  have h: "has_salary salaried_requirements" "salary_amount salaried_requirements = 5000"
    by (simp_all add: salaried_requirements_def no_requirements_def)
  from t m have a: "salary_pass 5000 sample_banks salaried_requirements ''OCBC 360''
        initial_top_solutions =
        for_each (\<lambda>d t. try_combination 5000 sample_banks salaried_requirements d
                           (Some ''OCBC 360'') t)
          (salary_leaves 5000 ''OCBC 360'') initial_top_solutions" by blast
  from t n have b: "\<not> has_salary (amended_reqs salaried_requirements (Some ''OCBC 360'')
        ''SC BonusSaver'')" by blast
  from t h have c: "has_salary (amended_reqs salaried_requirements (Some ''OCBC 360'') ''UOB One'')"
    "salary_amount (amended_reqs salaried_requirements (Some ''OCBC 360'') ''UOB One'') = 5000"
    by simp_all
  from m a n b c show ?thesis by (intro conjI) simp_all
qed

section \<open>The spend allocator\<close>

lemma alloc_ok_dict_set:
  assumes "alloc_ok D cur" and "entry_ok D b s"
  shows "alloc_ok D (dict_set cur b s)"
  unfolding alloc_ok_def
proof
  fix x
  assume "x \<in> set (dict_set cur b s)"
  with set_dict_set[of cur b s] have "x = (b, s) \<or> x \<in> set cur" by blast
  then show "entry_ok D (fst x) (snd x)"
  proof
    assume "x = (b, s)"
    with assms(2) show ?thesis by simp
  next
    assume "x \<in> set cur"
    with assms(1) show ?thesis unfolding alloc_ok_def by blast
  qed
qed

lemma alloc_ok_evaluate:
  assumes "evaluate_allocation B D R cur best = Inr best'"
    and "alloc_ok D cur" and "alloc_ok D (fst best)"
  shows "alloc_ok D (fst best')"
proof -
  from assms(1) obtain st where
    "Inr (if fst st > fst (snd best) then (cur, fst st, snd st) else best) = Inr best'"
    unfolding evaluate_allocation_def by (rule bind_err_InrE) blast
  then have "best' = (if fst st > fst (snd best) then (cur, fst st, snd st) else best)"
    by simp
  with assms(2,3) show ?thesis by (cases "fst st > fst (snd best)") simp_all
qed

lemma try_allocation_step:
  "\<not> remaining < min_list (map snd min_spends) \<Longrightarrow>
   try_allocation B D R remaining (b # bs) cur best =
     bind_err (dict_item min_spends b) (\<lambda>min_spend.
        bind_err (try_allocation B D R remaining bs cur best) (\<lambda>b1.
          if remaining \<ge> min_spend then
            (let new_allocation = dict_set cur b min_spend in
             bind_err (try_allocation B D R (remaining - min_spend) bs new_allocation b1) (\<lambda>b2.
               if b = ''BOC SmartSaver'' \<and> remaining \<ge> 1500 then
                 try_allocation B D R (remaining - 1500) bs
                   (dict_set new_allocation b 1500) b2
               else Inr b2))
          else Inr b1))"
  by (simp only: try_allocation.simps if_False)

lemma try_allocation_base:
  "banks = [] \<or> remaining < min_list (map snd min_spends) \<Longrightarrow>
   try_allocation B D R remaining banks cur best = evaluate_allocation B D R cur best"
  by (cases banks) (simp_all only: try_allocation.simps if_True list.simps simp_thms)

lemma alloc_ok_try_allocation:
  assumes "try_allocation B D R remaining banks cur best = Inr best'"
    and "alloc_ok D cur" and "alloc_ok D (fst best)"
    and "\<forall>b \<in> set banks. \<exists>d. D b = Some d \<and> 0 < d"
  shows "alloc_ok D (fst best')"
  using assms
proof (induction banks arbitrary: remaining cur best best')
  case Nil
  from Nil.prems(1) have "evaluate_allocation B D R cur best = Inr best'"
    by (simp only: try_allocation.simps)
  from alloc_ok_evaluate[OF this Nil.prems(2,3)] show ?case .
next
  case (Cons b bs)
  show ?case
  proof (cases "remaining < min_list (map snd min_spends)")
    case True
    with Cons.prems(1) have "evaluate_allocation B D R cur best = Inr best'"
      by (simp only: try_allocation.simps if_True)
    from alloc_ok_evaluate[OF this Cons.prems(2,3)] show ?thesis .
  next
    case False
    from Cons.prems(4) obtain d where d: "D b = Some d" "0 < d" by auto
    from Cons.prems(4) have rest: "\<forall>b \<in> set bs. \<exists>d. D b = Some d \<and> 0 < d" by simp
    note step = Cons.prems(1)[unfolded try_allocation_step[OF False]]
    from step obtain m where
      m: "dict_item min_spends b = Inr m" and
      step1: "bind_err (try_allocation B D R remaining bs cur best) (\<lambda>b1.
          if remaining \<ge> m then
            (let new_allocation = dict_set cur b m in
             bind_err (try_allocation B D R (remaining - m) bs new_allocation b1) (\<lambda>b2.
               if b = ''BOC SmartSaver'' \<and> remaining \<ge> 1500 then
                 try_allocation B D R (remaining - 1500) bs
                   (dict_set new_allocation b 1500) b2
               else Inr b2))
          else Inr b1) = Inr best'"
      by (rule bind_err_InrE) blast
    from step1 obtain b1 where
      skip: "try_allocation B D R remaining bs cur best = Inr b1" and
      more: "(if remaining \<ge> m then
            (let new_allocation = dict_set cur b m in
             bind_err (try_allocation B D R (remaining - m) bs new_allocation b1) (\<lambda>b2.
               if b = ''BOC SmartSaver'' \<and> remaining \<ge> 1500 then
                 try_allocation B D R (remaining - 1500) bs
                   (dict_set new_allocation b 1500) b2
               else Inr b2))
          else Inr b1) = Inr best'"
      by (rule bind_err_InrE) blast
    have mm: "map_of min_spends b = Some m" using m by (rule dict_item_Inr)
    have ok1: "alloc_ok D (fst b1)" using Cons.IH[OF skip Cons.prems(2,3) rest] .
    show ?thesis
    proof (cases "remaining \<ge> m")
      case False
      with more have "Inr b1 = Inr best'" by simp
      with ok1 show ?thesis by simp
    next
      case True
      have okn: "alloc_ok D (dict_set cur b m)"
        using d mm by (intro alloc_ok_dict_set[OF Cons.prems(2)]) (simp add: entry_ok_def)
      from more True have
        "bind_err (try_allocation B D R (remaining - m) bs (dict_set cur b m) b1) (\<lambda>b2.
               if b = ''BOC SmartSaver'' \<and> remaining \<ge> 1500 then
                 try_allocation B D R (remaining - 1500) bs
                   (dict_set (dict_set cur b m) b 1500) b2
               else Inr b2) = Inr best'"
        by (simp only: if_True Let_def)
      then obtain b2 where
        second: "try_allocation B D R (remaining - m) bs (dict_set cur b m) b1 = Inr b2" and
        third: "(if b = ''BOC SmartSaver'' \<and> remaining \<ge> 1500 then
                 try_allocation B D R (remaining - 1500) bs
                   (dict_set (dict_set cur b m) b 1500) b2
               else Inr b2) = Inr best'"
        by (rule bind_err_InrE) blast
      have ok2: "alloc_ok D (fst b2)" using Cons.IH[OF second okn ok1 rest] .
      show ?thesis
      proof (cases "b = ''BOC SmartSaver'' \<and> remaining \<ge> 1500")
        case False
        with third have "Inr b2 = Inr best'" by simp
        with ok2 show ?thesis by simp
      next
        case True
        then have bb: "b = ''BOC SmartSaver''" by (rule conjunct1)
        have okh: "alloc_ok D (dict_set (dict_set cur b m) b 1500)"
          using d mm bb by (intro alloc_ok_dict_set[OF okn]) (simp add: entry_ok_def)
        from third True have
          "try_allocation B D R (remaining - 1500) bs (dict_set (dict_set cur b m) b 1500) b2
             = Inr best'" by simp
        from Cons.IH[OF this okh ok2 rest] show ?thesis .
      qed
    qed
  qed
qed

lemma eligible_banks_positive:
  "b \<in> set (eligible_banks D) \<Longrightarrow> \<exists>d. D b = Some d \<and> 0 < d"
  by (auto simp: eligible_banks_def split: option.splits)

text \<open>
  Claim C9. In every allocation \<^verbatim>\<open>optimize_spend_allocation\<close> returns, each product that
  is assigned spend has a positive deposit allocation, and its assigned spend is that
  product's minimum qualifying spend, except that BOC SmartSaver, and only it, may hold
  the elevated 1,500 instead. The smallest minimum is 500, and \<^verbatim>\<open>try_allocation\<close> stops
  recursing and evaluates the current allocation when no products remain or the
  remaining spend is below that minimum; being a total function, it always returns.
\<close>

theorem spend_only_to_funded_products_at_thresholds:
  "(optimize_spend_allocation total_spend banks_data deposit_amounts base_requirements
      = Inr (best_allocation, best_total_interest, best_breakdown)
    \<and> (b, s) \<in> set best_allocation \<longrightarrow>
      (\<exists>d. deposit_amounts b = Some d \<and> 0 < d)
      \<and> (\<exists>m. map_of min_spends b = Some m
             \<and> (s = m \<or> (b = ''BOC SmartSaver'' \<and> s = 1500))))
   \<and> min_list (map snd min_spends) = 500
   \<and> (remaining_banks = [] \<or> remaining_spend < 500 \<longrightarrow>
        try_allocation banks_data deposit_amounts base_requirements remaining_spend
          remaining_banks current_allocation best
        = evaluate_allocation banks_data deposit_amounts base_requirements
            current_allocation best)"
proof (intro conjI impI)
  assume h: "optimize_spend_allocation total_spend banks_data deposit_amounts base_requirements
      = Inr (best_allocation, best_total_interest, best_breakdown)
    \<and> (b, s) \<in> set best_allocation"
  then have run: "try_allocation banks_data deposit_amounts base_requirements total_spend
       (eligible_banks deposit_amounts) [] ([], 0, [])
       = Inr (best_allocation, best_total_interest, best_breakdown)"
    by (simp add: optimize_spend_allocation_def)
  have "alloc_ok deposit_amounts (fst (best_allocation, best_total_interest, best_breakdown))"
    by (rule alloc_ok_try_allocation[OF run])
       (simp_all add: alloc_ok_def eligible_banks_positive)
  with h have "entry_ok deposit_amounts b s" unfolding alloc_ok_def by fastforce
  then show "\<exists>d. deposit_amounts b = Some d \<and> 0 < d"
    and "\<exists>m. map_of min_spends b = Some m \<and> (s = m \<or> (b = ''BOC SmartSaver'' \<and> s = 1500))"
    unfolding entry_ok_def by blast+
next
  show m: "min_list (map snd min_spends) = 500" by (simp add: min_spends_def)
  assume "remaining_banks = [] \<or> remaining_spend < 500"
  with m have "remaining_banks = [] \<or> remaining_spend < min_list (map snd min_spends)"
    by simp
  then show "try_allocation banks_data deposit_amounts base_requirements remaining_spend
          remaining_banks current_allocation best
        = evaluate_allocation banks_data deposit_amounts base_requirements
            current_allocation best"
    by (rule try_allocation_base)
qed

text \<open>
  Evaluation of the searches on concrete inputs rewrites the first argument of a bind to
  a value before it enters the continuation.
\<close>

lemmas run_defs =
  calculate_bank_interest_def calc_sc_bonussaver_def calc_uob_one_def calc_ocbc_360_def
  calc_boc_smartsaver_def calc_chocolate_def calc_dbs_multiplier_def
  sc_invest_bonus_def sc_insure_bonus_def process_ocbc_tier_def
  boc_salary_bonus_def boc_wealth_bonus_def boc_spend_bonus_def boc_payment_bonus_def
  calculate_dbs_eligible_transactions_def count_dbs_categories_def dbs_base_rate_def
  add_tier_def add_to_total_def add_interest_then_tier_def result_of_def
  bind_err_simps next_tier_def rate_of_def Let_def

lemmas spend_defs =
  optimize_spend_allocation_def eligible_banks_def min_spends_def evaluate_allocation_def
  eval_spend_def spend_reqs_def deposit_of_def dict_item_def sample_deposits_def

lemma spend_run:
  "\<exists>bd. optimize_spend_allocation 2000 sample_banks sample_deposits salaried_requirements
     = Inr ([(''UOB One'', 500), (''BOC SmartSaver'', 1500)], 6475 / 2, bd)"
  by (simp add: spend_defs run_defs sample_defs cong: bind_err_weak_cong)

theorem spend_only_to_funded_products_at_thresholds_witness:
  "(\<exists>ti bd. optimize_spend_allocation 2000 sample_banks sample_deposits salaried_requirements
     = Inr ([(''UOB One'', 500), (''BOC SmartSaver'', 1500)], ti, bd))
   \<and> (\<exists>d. sample_deposits ''BOC SmartSaver'' = Some d \<and> 0 < d)
   \<and> (\<exists>m. map_of min_spends ''BOC SmartSaver'' = Some m \<and> m \<noteq> 1500)
   \<and> try_allocation sample_banks sample_deposits salaried_requirements 400
        [''UOB One''] [] ([], 0, [])
      = evaluate_allocation sample_banks sample_deposits salaried_requirements [] ([], 0, [])"
proof -
  from spend_run obtain bd where
    run: "optimize_spend_allocation 2000 sample_banks sample_deposits salaried_requirements
     = Inr ([(''UOB One'', 500), (''BOC SmartSaver'', 1500)], 6475 / 2, bd)" by blast
  have mem: "(''BOC SmartSaver'', 1500) \<in> set [(''UOB One'', 500), (''BOC SmartSaver'', 1500::real)]"
    by simp
  have low: "[''UOB One''] = [] \<or> (400::real) < 500" by simp
  note t = spend_only_to_funded_products_at_thresholds
         [of 2000 sample_banks sample_deposits salaried_requirements
             "[(''UOB One'', 500), (''BOC SmartSaver'', 1500)]" "6475 / 2" bd
             "''BOC SmartSaver''" 1500 "[''UOB One'']" 400 "[]" "([], 0, [])"]
  from t run mem have a: "\<exists>d. sample_deposits ''BOC SmartSaver'' = Some d \<and> 0 < d" by blast
  from t low have c: "try_allocation sample_banks sample_deposits salaried_requirements 400
        [''UOB One''] [] ([], 0, [])
      = evaluate_allocation sample_banks sample_deposits salaried_requirements [] ([], 0, [])"
    by blast
  have m: "\<exists>m. map_of min_spends ''BOC SmartSaver'' = Some m \<and> m \<noteq> 1500"
    by (simp add: min_spends_def)
  from run have r: "\<exists>ti bd. optimize_spend_allocation 2000 sample_banks sample_deposits
       salaried_requirements = Inr ([(''UOB One'', 500), (''BOC SmartSaver'', 1500)], ti, bd)"
    by blast
  from r a m c show ?thesis by (intro conjI)
qed

section \<open>A missing tier\<close>


































end
